theory Spec2Isabelle
  imports
    Main
    "HOL-Library.Word"
    "HOL-Library.AList"
    "HOL-Library.Char_ord"
    "HOL-Library.List_Lexorder"
begin

section \<open>Data model of the storage package\<close>

text \<open>
  Go strings and byte slices are sequences of bytes; both are modelled as \<open>char list\<close>
  (an Isabelle \<open>char\<close> is one byte).  \<open>int64\<close> and \<open>time.Duration\<close> are 64-bit
  two's-complement integers: \<open>64 word\<close>, compared with the signed orders \<open><s\<close> and
  \<open>\<le>s\<close>.
\<close>

type_synonym bytes = string
type_synonym int64 = "64 word"

text \<open>\<^verbatim>\<open>type entry struct { Key string; Value []byte; Expiration int64 }\<close>\<close>

record entry =
  Key :: string
  Value :: bytes
  Expiration :: int64

text \<open>\<^verbatim>\<open>const NoExpiration time.Duration = -1\<close>\<close>

definition NoExpiration :: int64 where
  "NoExpiration = - 1"

text \<open>
  The operating-system calls the package makes.  An operation runs in an environment
  that says which of them fail with an I/O error (an error other than "already exists"
  for \<open>Mkdir\<close> and other than "does not exist" for \<open>OpenFile\<close> and \<open>Remove\<close>), and how
  many bytes a failing \<open>Write\<close> leaves in the file.
\<close>

datatype syscall = Mkdir | OpenFile | Sync | Seek | ReadAll | Truncate | Write | Remove | ReadDir

record io_env =
  fails :: "syscall set"
  short_write :: nat

text \<open>
  Error values.  \<open>NotExistsError\<close> is the package's sentinel
  \<^verbatim>\<open>var NotExistsError = fmt.Errorf("entry does not exists")\<close>; every other error the
  package returns is a different value: an I/O error of some system call, or the error
  of \<^verbatim>\<open>encoding/json\<close>.
\<close>

datatype error = NotExistsError | IOError syscall | JSONError

text \<open>\<^verbatim>\<open>IsNotExist(err)\<close>, the same on every backend; \<open>None\<close> is Go's \<open>nil\<close>.\<close>

definition IsNotExist :: "error option \<Rightarrow> bool" where
  "IsNotExist err = (if err = None then False else err = Some NotExistsError)"

text \<open>
  The functions of the Go standard library that the package calls are parameters of the
  model: \<^verbatim>\<open>md5.Sum\<close>, \<^verbatim>\<open>json.Marshal\<close> and \<^verbatim>\<open>json.Unmarshal\<close> at type \<open>entry\<close>
  (\<open>None\<close> is a returned error), and \<^verbatim>\<open>filepath.Match pattern name\<close>, which returns
  the pair (matched, err \<noteq> nil).
\<close>

record lib =
  md5_Sum :: "bytes \<Rightarrow> bytes"
  json_Marshal :: "entry \<Rightarrow> bytes option"
  json_Unmarshal :: "bytes \<Rightarrow> entry option"
  filepath_Match :: "string \<Rightarrow> string \<Rightarrow> bool \<times> bool"

text \<open>
  \<^verbatim>\<open>func md5Hash(s string) string { return fmt.Sprintf("%x", md5.Sum([]byte(s))) }\<close>:
  \<open>%x\<close> writes every byte of the digest as two lower-case hexadecimal digits.
\<close>

definition hex_digit :: "nat \<Rightarrow> char" where
  "hex_digit n = ''0123456789abcdef'' ! n"

definition Sprintf_x :: "bytes \<Rightarrow> string" where
  "Sprintf_x s = concat (map (\<lambda>c. [hex_digit (of_char c div 16), hex_digit (of_char c mod 16)]) s)"

definition md5Hash :: "lib \<Rightarrow> string \<Rightarrow> string" where
  "md5Hash L s = Sprintf_x (md5_Sum L s)"

text \<open>
  \<^verbatim>\<open>func isExpired(expirationTime int64) bool\<close>; \<open>now\<close> is the value of
  \<^verbatim>\<open>time.Now().UnixNano()\<close> read inside the call.
\<close>

definition isExpired :: "int64 \<Rightarrow> int64 \<Rightarrow> bool" where
  "isExpired now expirationTime \<longleftrightarrow> 0 <s expirationTime \<and> expirationTime <s now"

text \<open>
  The absolute deadline computed by both \<open>Put\<close> methods:
  \<^verbatim>\<open>var newExpiration int64; if expiration != NoExpiration { newExpiration = time.Now().Add(expiration).UnixNano() }\<close>.
  \<open>UnixNano\<close> of the shifted time is the 64-bit sum of the clock reading and the
  duration.
\<close>

definition newExpiration :: "int64 \<Rightarrow> int64 \<Rightarrow> int64" where
  "newExpiration now expiration = (if expiration \<noteq> NoExpiration then now + expiration else 0)"

text \<open>\<^verbatim>\<open>fmt.Sprintf(`{"%s":"%s"}`, entry.Key, entry.Value)\<close>: both fields are copied raw.\<close>

definition Sprintf_object :: "entry \<Rightarrow> string" where
  \<open>Sprintf_object e = ''{"'' @ Key e @ ''":"'' @ Value e @ ''"}''\<close>

text \<open>\<^verbatim>\<open>strings.Join(elems, sep)\<close>\<close>

fun Join :: "string list \<Rightarrow> string \<Rightarrow> string" where
  "Join [] sep = []"
| "Join [x] sep = x"
| "Join (x # y # ys) sep = x @ sep @ Join (y # ys) sep"

text \<open>\<^verbatim>\<open>fmt.Sprintf("[%s]", strings.Join(ret, ","))\<close>\<close>

definition Sprintf_array :: "string list \<Rightarrow> string" where
  "Sprintf_array ret = ''['' @ Join ret '','' @ '']''"

section \<open>The durable backend (LocalStorage, later renamed fileSystemStorage)\<close>

text \<open>
  The storage directory is the list of its regular files, name and content; a name is
  looked up with \<open>map_of\<close>, written with \<open>AList.update\<close> and removed with
  \<open>AList.delete\<close>.  A missing directory is created by the \<open>os.Mkdir\<close> every function
  starts with, so it is the same as an empty one.  The per-key mutexes are not modelled:
  the operations are taken one at a time.
\<close>

type_synonym dir = "(string \<times> bytes) list"

text \<open>
  \<^verbatim>\<open>func getWriter(storageDir, fileName string) (*os.File, error)\<close>:
  \<open>os.OpenFile\<close> with \<open>O_RDWR|O_CREATE\<close> creates an empty file when there is none.
  The result is the directory after the call and the error.
\<close>

definition getWriter :: "io_env \<Rightarrow> dir \<Rightarrow> string \<Rightarrow> dir \<times> error option" where
  "getWriter io d fileName =
     (if Mkdir \<in> fails io then (d, Some (IOError Mkdir))
      else if OpenFile \<in> fails io then (d, Some (IOError OpenFile))
      else (case map_of d fileName of
              None \<Rightarrow> (AList.update fileName [] d, None)
            | Some _ \<Rightarrow> (d, None)))"

text \<open>
  \<^verbatim>\<open>func getReader(storageDir, fileName string) (*os.File, error)\<close>: a missing file is
  \<open>NotExistsError\<close>, any other failure of the open is an I/O error.  The handle is
  modelled by the content it reads.
\<close>

definition getReader :: "io_env \<Rightarrow> dir \<Rightarrow> string \<Rightarrow> error + bytes" where
  "getReader io d fileName =
     (if Mkdir \<in> fails io then Inl (IOError Mkdir)
      else if OpenFile \<in> fails io then Inl (IOError OpenFile)
      else (case map_of d fileName of
              None \<Rightarrow> Inl NotExistsError
            | Some f \<Rightarrow> Inr f))"

text \<open>
  \<^verbatim>\<open>func (s *LocalStorage) getStorageData(key string) ([]byte, error)\<close>.  Every caller
  drops the byte slice when the error is not nil, so the pair is modelled as a sum.
\<close>

definition getStorageData :: "io_env \<Rightarrow> dir \<Rightarrow> string \<Rightarrow> error + bytes" where
  "getStorageData io d key =
     (case getReader io d key of
        Inl err \<Rightarrow> Inl err
      | Inr f \<Rightarrow>
          if Sync \<in> fails io then Inl (IOError Sync)
          else if Seek \<in> fails io then Inl (IOError Seek)
          else if ReadAll \<in> fails io then Inl (IOError ReadAll)
          else Inr f)"

text \<open>\<^verbatim>\<open>func (s *LocalStorage) getAllStorageKeys() ([]string, error)\<close>:
  \<open>ioutil.ReadDir\<close> lists every file once, sorted by name.\<close>

definition getAllStorageKeys :: "io_env \<Rightarrow> dir \<Rightarrow> error + string list" where
  "getAllStorageKeys io d =
     (if Mkdir \<in> fails io then Inl (IOError Mkdir)
      else if ReadDir \<in> fails io then Inl (IOError ReadDir)
      else Inr (sort (remdups (map fst d))))"

text \<open>\<^verbatim>\<open>func (s *LocalStorage) deleteStorage(key string) error\<close>\<close>

definition deleteStorage :: "io_env \<Rightarrow> dir \<Rightarrow> string \<Rightarrow> dir \<times> error option" where
  "deleteStorage io d key =
     (if Mkdir \<in> fails io then (d, Some (IOError Mkdir))
      else if Remove \<in> fails io then (d, Some (IOError Remove))
      else (case map_of d key of
              None \<Rightarrow> (d, Some NotExistsError)
            | Some _ \<Rightarrow> (AList.delete key d, None)))"

text \<open>
  \<^verbatim>\<open>func (s *LocalStorage) dumpToStorage(key string, data []byte) error\<close>: hash the key,
  open or create the file, truncate it, seek to the start, write, sync.  The directory
  is returned as each failing step leaves it.
\<close>

definition dumpToStorage :: "lib \<Rightarrow> io_env \<Rightarrow> dir \<Rightarrow> string \<Rightarrow> bytes \<Rightarrow> dir \<times> error option" where
  "dumpToStorage L io d key data =
     (let key = md5Hash L key in
      case getWriter io d key of
        (d1, Some err) \<Rightarrow> (d1, Some err)
      | (d1, None) \<Rightarrow>
          if Truncate \<in> fails io then (d1, Some (IOError Truncate))
          else let d2 = AList.update key [] d1 in
            if Seek \<in> fails io then (d2, Some (IOError Seek))
            else if Write \<in> fails io
              then (AList.update key (take (short_write io) data) d2, Some (IOError Write))
            else let d3 = AList.update key data d2 in
              if Sync \<in> fails io then (d3, Some (IOError Sync))
              else (d3, None))"

text \<open>
  \<^verbatim>\<open>func (s *LocalStorage) Get(key string) (io.Reader, error)\<close>.  The result is the
  content of the returned reader and the error; \<open>r\<close> is \<^verbatim>\<open>bytes.NewReader(nil)\<close>.
\<close>

definition LocalStorage_Get :: "lib \<Rightarrow> io_env \<Rightarrow> int64 \<Rightarrow> dir \<Rightarrow> string \<Rightarrow> bytes \<times> error option" where
  "LocalStorage_Get L io now d key =
     (let r = [];
          key = md5Hash L key in
      case getStorageData io d key of
        Inl err \<Rightarrow> (r, Some err)
      | Inr b \<Rightarrow>
          if length b = 0 then (r, Some NotExistsError)
          else (case json_Unmarshal L b of
                  None \<Rightarrow> (r, Some JSONError)
                | Some entry \<Rightarrow>
                    if \<not> isExpired now (Expiration entry) then (Value entry, None)
                    else (r, Some NotExistsError)))"

text \<open>
  \<^verbatim>\<open>func (s *fileSystemStorage) Get(key string) (io.Reader, error)\<close>, the renamed
  backend, with \<open>errNotExists\<close> for \<open>NotExistsError\<close>.
\<close>

definition fileSystemStorage_Get :: "lib \<Rightarrow> io_env \<Rightarrow> int64 \<Rightarrow> dir \<Rightarrow> string \<Rightarrow> bytes \<times> error option" where
  "fileSystemStorage_Get L io now d key =
     (let r = [];
          key = md5Hash L key in
      case getStorageData io d key of
        Inl err \<Rightarrow> (r, Some err)
      | Inr b \<Rightarrow>
          if length b = 0 then (r, Some NotExistsError)
          else (case json_Unmarshal L b of
                  None \<Rightarrow> (r, Some JSONError)
                | Some entry \<Rightarrow>
                    if \<not> isExpired now (Expiration entry) then (Value entry, None)
                    else (r, Some NotExistsError)))"

text \<open>
  The body of the loop of \<^verbatim>\<open>LocalStorage.GetPattern\<close> over the listed file names,
  with \<open>ret\<close> the slice built so far.  Each file is read in its own environment
  \<open>ios key\<close>, and \<open>clock key\<close> is the time \<open>isExpired\<close> reads when it is called for
  that file.
\<close>

fun LocalStorage_GetPattern_loop ::
  "lib \<Rightarrow> (string \<Rightarrow> io_env) \<Rightarrow> (string \<Rightarrow> int64) \<Rightarrow> dir \<Rightarrow> string \<Rightarrow> string list \<Rightarrow> string list \<Rightarrow> string list"
where
  "LocalStorage_GetPattern_loop L ios clock d pattern [] ret = ret"
| "LocalStorage_GetPattern_loop L ios clock d pattern (key # keys) ret =
     (case getStorageData (ios key) d key of
        Inl err \<Rightarrow> LocalStorage_GetPattern_loop L ios clock d pattern keys ret
      | Inr b \<Rightarrow>
          if length b = 0 then LocalStorage_GetPattern_loop L ios clock d pattern keys ret
          else (case json_Unmarshal L b of
                  None \<Rightarrow> LocalStorage_GetPattern_loop L ios clock d pattern keys ret
                | Some entry \<Rightarrow>
                    (case filepath_Match L pattern (Key entry) of
                       (ok, err) \<Rightarrow>
                         if \<not> ok \<or> err then LocalStorage_GetPattern_loop L ios clock d pattern keys ret
                         else if \<not> isExpired (clock key) (Expiration entry)
                           then LocalStorage_GetPattern_loop L ios clock d pattern keys
                                  (ret @ [Sprintf_object entry])
                         else LocalStorage_GetPattern_loop L ios clock d pattern keys ret)))"

text \<open>\<^verbatim>\<open>func (s *LocalStorage) GetPattern(pattern string) (io.Reader, error)\<close>;
  \<open>io\<close> is the environment of the directory listing.\<close>

definition LocalStorage_GetPattern ::
  "lib \<Rightarrow> io_env \<Rightarrow> (string \<Rightarrow> io_env) \<Rightarrow> (string \<Rightarrow> int64) \<Rightarrow> dir \<Rightarrow> string \<Rightarrow> bytes \<times> error option"
where
  "LocalStorage_GetPattern L io ios clock d pattern =
     (let r = [] in
      case getAllStorageKeys io d of
        Inl err \<Rightarrow> (r, Some err)
      | Inr keys \<Rightarrow>
          (Sprintf_array (LocalStorage_GetPattern_loop L ios clock d pattern keys []), None))"

text \<open>\<^verbatim>\<open>func (s *LocalStorage) Delete(key string) error\<close>\<close>

definition LocalStorage_Delete :: "lib \<Rightarrow> io_env \<Rightarrow> dir \<Rightarrow> string \<Rightarrow> dir \<times> error option" where
  "LocalStorage_Delete L io d key = (let key = md5Hash L key in deleteStorage io d key)"

text \<open>
  \<^verbatim>\<open>func (s *LocalStorage) Put(key string, value string, expiration time.Duration) error\<close>;
  \<open>now\<close> is the clock reading of \<open>time.Now()\<close>.
\<close>

definition newEntry :: "int64 \<Rightarrow> string \<Rightarrow> string \<Rightarrow> int64 \<Rightarrow> entry" where
  "newEntry now key val expiration =
     \<lparr>Key = key, Value = val, Expiration = newExpiration now expiration\<rparr>"

definition LocalStorage_Put ::
  "lib \<Rightarrow> io_env \<Rightarrow> int64 \<Rightarrow> dir \<Rightarrow> string \<Rightarrow> string \<Rightarrow> int64 \<Rightarrow> dir \<times> error option"
where
  "LocalStorage_Put L io now d key val expiration =
     (case json_Marshal L (newEntry now key val expiration) of
        None \<Rightarrow> (d, Some JSONError)
      | Some dumped \<Rightarrow> dumpToStorage L io d key dumped)"

section \<open>The in-memory backend (MemoryStorage)\<close>

text \<open>
  The table \<^verbatim>\<open>data map[string]entry\<close> is a finite map.  The snapshot file and the
  background flush do not take part in \<open>Put\<close>, \<open>Get\<close>, \<open>GetPattern\<close> and \<open>Delete\<close>,
  which act on the table alone.
\<close>

type_synonym table = "string \<rightharpoonup> entry"

text \<open>\<^verbatim>\<open>func (s *MemoryStorage) Get(key string) (io.Reader, error)\<close>\<close>

definition MemoryStorage_Get :: "int64 \<Rightarrow> table \<Rightarrow> string \<Rightarrow> bytes \<times> error option" where
  "MemoryStorage_Get now data key =
     (let r = [] in
      case data key of
        None \<Rightarrow> (r, Some NotExistsError)
      | Some entry \<Rightarrow>
          if \<not> isExpired now (Expiration entry) then (Value entry, None)
          else (r, Some NotExistsError))"

text \<open>
  The loop \<^verbatim>\<open>for _, entry := range s.data\<close> of \<^verbatim>\<open>MemoryStorage.GetPattern\<close>.  Go
  visits the keys of a map in an order of its choosing: \<open>keys\<close> is that order, and
  \<open>clock key\<close> the time \<open>isExpired\<close> reads for that entry.
\<close>

fun MemoryStorage_GetPattern_loop ::
  "lib \<Rightarrow> (string \<Rightarrow> int64) \<Rightarrow> table \<Rightarrow> string \<Rightarrow> string list \<Rightarrow> string list \<Rightarrow> string list"
where
  "MemoryStorage_GetPattern_loop L clock data pattern [] ret = ret"
| "MemoryStorage_GetPattern_loop L clock data pattern (key # keys) ret =
     (case data key of
        None \<Rightarrow> MemoryStorage_GetPattern_loop L clock data pattern keys ret
      | Some entry \<Rightarrow>
          (case filepath_Match L pattern (Key entry) of
             (ok, err) \<Rightarrow>
               if \<not> ok \<or> err then MemoryStorage_GetPattern_loop L clock data pattern keys ret
               else if \<not> isExpired (clock key) (Expiration entry)
                 then MemoryStorage_GetPattern_loop L clock data pattern keys
                        (ret @ [Sprintf_object entry])
               else MemoryStorage_GetPattern_loop L clock data pattern keys ret))"

text \<open>\<^verbatim>\<open>func (s *MemoryStorage) GetPattern(pattern string) (io.Reader, error)\<close>\<close>

definition MemoryStorage_GetPattern ::
  "lib \<Rightarrow> (string \<Rightarrow> int64) \<Rightarrow> table \<Rightarrow> string list \<Rightarrow> string \<Rightarrow> bytes \<times> error option"
where
  "MemoryStorage_GetPattern L clock data keys pattern =
     (Sprintf_array (MemoryStorage_GetPattern_loop L clock data pattern keys []), None)"

text \<open>\<^verbatim>\<open>func (s *MemoryStorage) Delete(key string) error\<close>\<close>

definition MemoryStorage_Delete :: "table \<Rightarrow> string \<Rightarrow> table \<times> error option" where
  "MemoryStorage_Delete data key =
     (case data key of
        None \<Rightarrow> (data, Some NotExistsError)
      | Some _ \<Rightarrow> (data(key := None), None))"

text \<open>\<^verbatim>\<open>func (s *MemoryStorage) Put(key string, value string, expiration time.Duration) error\<close>\<close>

definition MemoryStorage_Put ::
  "int64 \<Rightarrow> table \<Rightarrow> string \<Rightarrow> string \<Rightarrow> int64 \<Rightarrow> table \<times> error option"
where
  "MemoryStorage_Put now data key val expiration =
     (data(key \<mapsto> newEntry now key val expiration), None)"

section \<open>The specification of a whole-store scan\<close>

text \<open>
  These definitions follow the words of the specification, not the loops; the loops
  are compared with them below.  \<open>GetPattern\<close> returns "a JSON array of
  \<open>{key: value}\<close> objects for all matching, non-expired entries": in memory, the
  entry a key contributes is the one stored under it when \<open>filepath.Match\<close> reports
  a match and no error ("an invalid pattern causes that key to be treated as
  non-matching") and the entry is not expired at the time read for it.  On disk the
  file must also be readable, not empty and decodable ("files that fail to decode are
  silently skipped").
\<close>

definition MemoryStorage_visible ::
  "lib \<Rightarrow> (string \<Rightarrow> int64) \<Rightarrow> table \<Rightarrow> string \<Rightarrow> string \<Rightarrow> entry option"
where
  "MemoryStorage_visible L clock data pattern key =
     (case data key of
        None \<Rightarrow> None
      | Some e \<Rightarrow>
          if fst (filepath_Match L pattern (Key e)) \<and> \<not> snd (filepath_Match L pattern (Key e))
             \<and> \<not> isExpired (clock key) (Expiration e)
          then Some e else None)"

definition LocalStorage_decoded :: "lib \<Rightarrow> io_env \<Rightarrow> dir \<Rightarrow> string \<Rightarrow> entry option" where
  "LocalStorage_decoded L io d name =
     (case getStorageData io d name of
        Inl err \<Rightarrow> None
      | Inr b \<Rightarrow> if b = [] then None else json_Unmarshal L b)"

definition LocalStorage_visible ::
  "lib \<Rightarrow> (string \<Rightarrow> io_env) \<Rightarrow> (string \<Rightarrow> int64) \<Rightarrow> dir \<Rightarrow> string \<Rightarrow> string \<Rightarrow> entry option"
where
  "LocalStorage_visible L ios clock d pattern name =
     (case LocalStorage_decoded L (ios name) d name of
        None \<Rightarrow> None
      | Some e \<Rightarrow>
          if fst (filepath_Match L pattern (Key e)) \<and> \<not> snd (filepath_Match L pattern (Key e))
             \<and> \<not> isExpired (clock name) (Expiration e)
          then Some e else None)"

text \<open>
  The wire format as the specification writes it:
  \<^verbatim>\<open>[{"<key1>":"<value1>"},{"<key2>":"<value2>"},...]\<close>, and \<^verbatim>\<open>[]\<close> when there is
  nothing to return.
\<close>

definition wire_object :: "entry \<Rightarrow> string" where
  \<open>wire_object e = [CHR ''{'', CHR 0x22] @ Key e @ [CHR 0x22, CHR '':'', CHR 0x22] @ Value e @ [CHR 0x22, CHR ''}'']\<close>

fun wire_array :: "entry list \<Rightarrow> string" where
  "wire_array [] = ''[]''"
| "wire_array (e # es) = ''['' @ wire_object e @ concat (map (\<lambda>x. '','' @ wire_object x) es) @ '']''"

text \<open>
  What the round trip of \<open>Put\<close> and \<open>Get\<close> on disk needs from \<^verbatim>\<open>encoding/json\<close>:
  marshalling the entry succeeds with at least one byte, and unmarshalling those bytes
  gives an entry with the same value and expiration.  (The key is not asked for: Go
  replaces invalid UTF-8 in a string by U+FFFD when it marshals it.)
\<close>

definition codec_roundtrip :: "lib \<Rightarrow> entry \<Rightarrow> bool" where
  "codec_roundtrip L e =
     (case json_Marshal L e of
        None \<Rightarrow> False
      | Some b \<Rightarrow>
          b \<noteq> [] \<and>
          (case json_Unmarshal L b of
             None \<Rightarrow> False
           | Some e' \<Rightarrow> Value e' = Value e \<and> Expiration e' = Expiration e))"

section \<open>One instance of the library functions\<close>

text \<open>
  The statements below hold for every choice of the four library functions.  The closed
  examples need one choice; this section defines it.  It is a small stand-in, not the Go
  library.  The digest is the key itself where Go computes its MD5 sum, so that a file
  is named by the hexadecimal spelling of its key; no statement depends on the digest.
  \<open>sample_Marshal\<close> writes the three fields in Go's layout: the key with quote and
  backslash escaped, the value in standard base64, the expiration in decimal.
  \<open>sample_Unmarshal\<close> reads that layout back and rejects everything else.
  \<open>sample_Match\<close> is a byte-wise glob with \<open>*\<close> and \<open>?\<close> (neither matches a
  slash), bracket classes and backslash escapes, which reports a malformed pattern as
  an error for every name.  On the keys, values and patterns of the examples these
  functions return what \<^verbatim>\<open>encoding/json\<close> and \<^verbatim>\<open>path/filepath\<close> return.
\<close>

text \<open>Standard base64 with padding, three bytes to four characters.\<close>

definition b64_alphabet :: string where
  "b64_alphabet = ''ABCDEFGHIJKLMNOPQRSTUVWXYZabcdefghijklmnopqrstuvwxyz0123456789+/''"

definition b64_char :: "int \<Rightarrow> char" where
  "b64_char n = b64_alphabet ! nat n"

definition b64_index :: "char \<Rightarrow> int option" where
  "b64_index c =
     (let i = length (takeWhile (\<lambda>x. x \<noteq> c) b64_alphabet)
      in if i < 64 then Some (int i) else None)"

fun b64_encode :: "bytes \<Rightarrow> string" where
  "b64_encode (a # b # c # rest) =
     (let n = (of_char a * 256 + of_char b) * 256 + (of_char c :: int)
      in b64_char (n div 262144) # b64_char (n div 4096 mod 64) # b64_char (n div 64 mod 64)
           # b64_char (n mod 64) # b64_encode rest)"
| "b64_encode [a, b] =
     (let n = (of_char a * 256 + (of_char b :: int)) * 4
      in [b64_char (n div 4096), b64_char (n div 64 mod 64), b64_char (n mod 64), CHR ''=''])"
| "b64_encode [a] =
     (let n = (of_char a :: int) * 16
      in [b64_char (n div 64), b64_char (n mod 64), CHR ''='', CHR ''=''])"
| "b64_encode [] = []"

fun b64_decode :: "string \<Rightarrow> bytes option" where
  "b64_decode [] = Some []"
| "b64_decode (w # x # y # z # rest) =
     (case (b64_index w, b64_index x) of
        (Some i, Some j) \<Rightarrow>
          if y = CHR ''='' \<and> z = CHR ''='' \<and> rest = [] then Some [char_of (i * 4 + j div 16)]
          else (case b64_index y of
                  None \<Rightarrow> None
                | Some k \<Rightarrow>
                    if z = CHR ''='' \<and> rest = []
                    then Some [char_of (i * 4 + j div 16), char_of (j mod 16 * 16 + k div 4)]
                    else (case b64_index z of
                            None \<Rightarrow> None
                          | Some l \<Rightarrow>
                              map_option
                                (\<lambda>bs. char_of (i * 4 + j div 16) # char_of (j mod 16 * 16 + k div 4)
                                        # char_of (k mod 4 * 64 + l) # bs)
                                (b64_decode rest)))
      | _ \<Rightarrow> None)"
| "b64_decode _ = None"

text \<open>Decimal numerals of an \<open>int64\<close>; leading zeros and values out of range are rejected.\<close>

function dec_nat :: "int \<Rightarrow> string" where
  "dec_nat n = (if n < 10 then [char_of (48 + n)] else dec_nat (n div 10) @ [char_of (48 + n mod 10)])"
  by pat_completeness auto
termination
  by (relation "measure nat") auto

declare dec_nat.simps [simp del]

definition FormatInt :: "int64 \<Rightarrow> string" where
  "FormatInt x = (if sint x < 0 then CHR ''-'' # dec_nat (- sint x) else dec_nat (sint x))"

fun parse_nat :: "int \<Rightarrow> string \<Rightarrow> int option" where
  "parse_nat acc [] = Some acc"
| "parse_nat acc (c # cs) =
     (let n = of_char c :: int
      in if 48 \<le> n \<and> n \<le> 57 then parse_nat (acc * 10 + (n - 48)) cs else None)"

definition parse_digits :: "string \<Rightarrow> int option" where
  "parse_digits s =
     (if s = [] \<or> (hd s = CHR ''0'' \<and> tl s \<noteq> []) then None else parse_nat 0 s)"

definition ParseInt :: "string \<Rightarrow> int64 option" where
  "ParseInt s =
     (case s of
        [] \<Rightarrow> None
      | c # cs \<Rightarrow>
          if c = CHR ''-''
          then (case parse_digits cs of
                  None \<Rightarrow> None
                | Some n \<Rightarrow> if n \<le> 2 ^ 63 then Some (word_of_int (- n)) else None)
          else (case parse_digits s of
                  None \<Rightarrow> None
                | Some n \<Rightarrow> if n < 2 ^ 63 then Some (word_of_int n) else None))"

text \<open>The JSON object of an entry, written and read field by field.\<close>

fun quote_string :: "string \<Rightarrow> string" where
  "quote_string [] = []"
| "quote_string (c # cs) =
     (if c = CHR 0x22 \<or> c = CHR 0x5C then CHR 0x5C # c # quote_string cs
      else c # quote_string cs)"

fun read_string :: "string \<Rightarrow> string \<Rightarrow> (string \<times> string) option" where
  "read_string acc [] = None"
| "read_string acc (c # cs) =
     (if c = CHR 0x22 then Some (acc, cs)
      else if c = CHR 0x5C
        then (case cs of
                [] \<Rightarrow> None
              | e # r \<Rightarrow> if e = CHR 0x22 \<or> e = CHR 0x5C then read_string (acc @ [e]) r else None)
      else read_string (acc @ [c]) cs)"

fun strip_prefix :: "string \<Rightarrow> string \<Rightarrow> string option" where
  "strip_prefix [] s = Some s"
| "strip_prefix (p # ps) [] = None"
| "strip_prefix (p # ps) (c # cs) = (if p = c then strip_prefix ps cs else None)"

definition sample_Marshal :: "entry \<Rightarrow> bytes option" where
  \<open>sample_Marshal e =
     Some (''{"key":"'' @ quote_string (Key e) @ ''","value":"'' @ b64_encode (Value e)
           @ ''","expiration":'' @ FormatInt (Expiration e) @ ''}'')\<close>

definition sample_Unmarshal :: "bytes \<Rightarrow> entry option" where
  \<open>sample_Unmarshal b =
     Option.bind (strip_prefix ''{"key":"'' b) (\<lambda>r1.
     Option.bind (read_string [] r1) (\<lambda>(k, r2).
     Option.bind (strip_prefix '',"value":"'' r2) (\<lambda>r3.
     Option.bind (read_string [] r3) (\<lambda>(v64, r4).
     Option.bind (b64_decode v64) (\<lambda>v.
     Option.bind (strip_prefix '',"expiration":'' r4) (\<lambda>r5.
     if r5 = [] \<or> last r5 \<noteq> CHR ''}'' then None
     else Option.bind (ParseInt (butlast r5)) (\<lambda>x.
       Some \<lparr>Key = k, Value = v, Expiration = x\<rparr>)))))))\<close>



text \<open>
  Glob patterns: the pattern is split into items (\<open>None\<close> when it is malformed: a
  trailing backslash, or a bracket expression that is empty, unterminated or has a
  stray \<open>-\<close>), and the items are matched against the name.
\<close>

datatype glob_item = Star | AnyChar | Lit char | Class bool "(char \<times> char) list"

fun unescape :: "string \<Rightarrow> (bool \<times> char) list option" where
  "unescape [] = Some []"
| "unescape (c # p) =
     (if c = CHR 0x5C
      then (case p of
              [] \<Rightarrow> None
            | x # q \<Rightarrow> map_option (Cons (True, x)) (unescape q))
      else map_option (Cons (False, c)) (unescape p))"

fun glob_items :: "(bool \<times> (char \<times> char) list) option \<Rightarrow> (bool \<times> char) list \<Rightarrow> glob_item list option" where
  "glob_items None [] = Some []"
| "glob_items (Some cls) [] = None"
| "glob_items None ((e, c) # p) =
     (if \<not> e \<and> c = CHR ''*'' then map_option (Cons Star) (glob_items None p)
      else if \<not> e \<and> c = CHR ''?'' then map_option (Cons AnyChar) (glob_items None p)
      else if \<not> e \<and> c = CHR ''[''
        then (case p of
                [] \<Rightarrow> None
              | (e1, c1) # q \<Rightarrow>
                  if \<not> e1 \<and> c1 = CHR ''^'' then glob_items (Some (True, [])) q
                  else glob_items (Some (False, [])) p)
      else map_option (Cons (Lit c)) (glob_items None p))"
| "glob_items (Some (neg, rs)) ((e, c) # p) =
     (if \<not> e \<and> c = CHR '']''
        then (if rs = [] then None else map_option (Cons (Class neg rs)) (glob_items None p))
      else if \<not> e \<and> c = CHR ''-'' then None
      else (case p of
              (e1, c1) # (e2, c2) # q \<Rightarrow>
                if \<not> e1 \<and> c1 = CHR ''-''
                then (if \<not> e2 \<and> (c2 = CHR ''-'' \<or> c2 = CHR '']'') then None
                      else glob_items (Some (neg, rs @ [(c, c2)])) q)
                else glob_items (Some (neg, rs @ [(c, c)])) p
            | _ \<Rightarrow> glob_items (Some (neg, rs @ [(c, c)])) p))"

fun glob_match :: "glob_item list \<Rightarrow> string \<Rightarrow> bool" where
  "glob_match [] s = (s = [])"
| "glob_match (Star # is) [] = glob_match is []"
| "glob_match (Star # is) (x # t) =
     (glob_match is (x # t) \<or> (x \<noteq> CHR ''/'' \<and> glob_match (Star # is) t))"
| "glob_match (AnyChar # is) [] = False"
| "glob_match (AnyChar # is) (x # t) = (x \<noteq> CHR ''/'' \<and> glob_match is t)"
| "glob_match (Lit c # is) [] = False"
| "glob_match (Lit c # is) (x # t) = (x = c \<and> glob_match is t)"
| "glob_match (Class neg rs # is) [] = False"
| "glob_match (Class neg rs # is) (x # t) =
     (((\<exists>(lo, hi) \<in> set rs. lo \<le> x \<and> x \<le> hi) \<noteq> neg) \<and> glob_match is t)"

definition sample_Match :: "string \<Rightarrow> string \<Rightarrow> bool \<times> bool" where
  "sample_Match pattern name =
     (case Option.bind (unescape pattern) (glob_items None) of
        None \<Rightarrow> (False, True)
      | Some is \<Rightarrow> (glob_match is name, False))"

definition sample_lib :: lib where
  "sample_lib = \<lparr>md5_Sum = (\<lambda>s. s), json_Marshal = sample_Marshal,
     json_Unmarshal = sample_Unmarshal, filepath_Match = sample_Match\<rparr>"

text \<open>The environment in which no system call fails.\<close>

definition no_faults :: io_env where
  "no_faults = \<lparr>fails = {}, short_write = 0\<rparr>"

text \<open>
  A library that differs from \<open>L\<close> only in that \<open>filepath.Match\<close> never reports an
  error: where \<open>L\<close> reports one, it answers "no match".
\<close>

definition errors_as_no_match :: "lib \<Rightarrow> lib" where
  "errors_as_no_match L =
     L\<lparr>filepath_Match :=
         \<lambda>pattern name. (fst (filepath_Match L pattern name) \<and> \<not> snd (filepath_Match L pattern name),
                          False)\<rparr>"

section \<open>Facts about the helpers\<close>

lemma isExpired_zero: "\<not> isExpired now 0"
  by (simp add: isExpired_def)

lemma newExpiration_NoExpiration: "newExpiration now NoExpiration = 0"
  by (simp add: newExpiration_def)

lemma dumpToStorage_ok:
  assumes "dumpToStorage L io d key data = (d', None)"
  shows "map_of d' (md5Hash L key) = Some data"
  using assms
  by (auto simp: dumpToStorage_def Let_def update_conv' split: prod.splits option.splits if_splits)

lemma dumpToStorage_error_indep:
  "snd (dumpToStorage L io d key data) = snd (dumpToStorage L io d0 key data)"
  by (auto simp: dumpToStorage_def getWriter_def Let_def split: prod.splits option.splits if_splits)

lemma dumpToStorage_no_faults:
  "fails io = {} \<Longrightarrow> snd (dumpToStorage L io d key data) = None"
  by (auto simp: dumpToStorage_def getWriter_def Let_def split: prod.splits option.splits if_splits)

lemma getStorageData_no_faults:
  "fails io = {} \<Longrightarrow>
   getStorageData io d name = (case map_of d name of None \<Rightarrow> Inl NotExistsError | Some b \<Rightarrow> Inr b)"
  by (simp add: getStorageData_def getReader_def split: option.splits)

lemma LocalStorage_Get_stored:
  assumes "fails io = {}" and "map_of d (md5Hash L key) = Some b"
  shows "LocalStorage_Get L io now d key =
     (if b = [] then ([], Some NotExistsError)
      else case json_Unmarshal L b of
             None \<Rightarrow> ([], Some JSONError)
           | Some e \<Rightarrow> if isExpired now (Expiration e) then ([], Some NotExistsError)
                       else (Value e, None))"
  using assms
  by (simp add: LocalStorage_Get_def getStorageData_no_faults Let_def split: option.splits)

lemma fileSystemStorage_Get_eq: "fileSystemStorage_Get = LocalStorage_Get"
  by (intro ext) (simp add: fileSystemStorage_Get_def LocalStorage_Get_def)

lemma LocalStorage_Put_ok:
  assumes "LocalStorage_Put L io now d key val expiration = (d', None)"
  shows "\<exists>dumped. json_Marshal L (newEntry now key val expiration) = Some dumped
           \<and> map_of d' (md5Hash L key) = Some dumped"
  using assms
  by (auto simp: LocalStorage_Put_def dumpToStorage_ok split: option.splits)

lemma LocalStorage_Get_after_Put:
  assumes put: "LocalStorage_Put L io now d key val expiration = (d', None)"
    and rt: "codec_roundtrip L (newEntry now key val expiration)"
    and io': "fails io' = {}"
  shows "LocalStorage_Get L io' now' d' key =
    (if isExpired now' (newExpiration now expiration) then ([], Some NotExistsError) else (val, None))"
proof -
  from LocalStorage_Put_ok [OF put] obtain dumped where
    m: "json_Marshal L (newEntry now key val expiration) = Some dumped"
    and s: "map_of d' (md5Hash L key) = Some dumped" by blast
  from rt m obtain e' where ne: "dumped \<noteq> []" and u: "json_Unmarshal L dumped = Some e'"
    and v: "Value e' = val" and x: "Expiration e' = newExpiration now expiration"
    by (auto simp: codec_roundtrip_def newEntry_def split: option.splits)
  show ?thesis
    by (simp add: LocalStorage_Get_stored [OF io' s] ne u v x)
qed

lemma MemoryStorage_Get_after_Put:
  "MemoryStorage_Get now' (fst (MemoryStorage_Put now data key val expiration)) key =
    (if isExpired now' (newExpiration now expiration) then ([], Some NotExistsError) else (val, None))"
  by (simp add: MemoryStorage_Get_def MemoryStorage_Put_def newEntry_def)

section \<open>Put followed by Get\<close>

text \<open>
  Claim C1.  A \<open>Put\<close> with the no-expiration sentinel followed by a \<open>Get\<close> of the same
  key returns exactly the bytes of the value, on either backend.  On disk the \<open>Put\<close> is
  one that returned no error, the \<open>Get\<close> runs without I/O failure at any later or
  earlier time, and \<^verbatim>\<open>encoding/json\<close> gives the value back (\<open>codec_roundtrip\<close>);
  in memory nothing is assumed.
\<close>

theorem put_get_roundtrip:
  assumes "LocalStorage_Put L io now d key val NoExpiration = (d', None)"
    and "codec_roundtrip L (newEntry now key val NoExpiration)"
    and "fails io' = {}"
  shows "LocalStorage_Get L io' now' d' key = (val, None)
       \<and> fileSystemStorage_Get L io' now' d' key = (val, None)
       \<and> snd (MemoryStorage_Put now data key val NoExpiration) = None
       \<and> MemoryStorage_Get now' (fst (MemoryStorage_Put now data key val NoExpiration)) key = (val, None)"
proof -
  have "LocalStorage_Get L io' now' d' key = (val, None)"
    using LocalStorage_Get_after_Put [OF assms, of now']
    by (simp add: newExpiration_NoExpiration isExpired_zero)
  moreover have "snd (MemoryStorage_Put now data key val NoExpiration) = None"
    by (simp add: MemoryStorage_Put_def)
  moreover have
    "MemoryStorage_Get now' (fst (MemoryStorage_Put now data key val NoExpiration)) key = (val, None)"
    by (simp add: MemoryStorage_Get_after_Put newExpiration_NoExpiration isExpired_zero)
  ultimately show ?thesis
    by (simp add: fileSystemStorage_Get_eq)
qed

theorem put_get_roundtrip_witness:
  \<open>LocalStorage_Put sample_lib no_faults 1793404800000000000 [] ''a key'' ''a value'' NoExpiration
     = ([(''61206b6579'', ''{"key":"a key","value":"YSB2YWx1ZQ==","expiration":0}'')], None)
   \<and> LocalStorage_Get sample_lib no_faults 1793404800000000001
        [(''61206b6579'', ''{"key":"a key","value":"YSB2YWx1ZQ==","expiration":0}'')] ''a key''
     = (''a value'', None)
   \<and> fileSystemStorage_Get sample_lib no_faults 1793404800000000001
        [(''61206b6579'', ''{"key":"a key","value":"YSB2YWx1ZQ==","expiration":0}'')] ''a key''
     = (''a value'', None)
   \<and> MemoryStorage_Get 1793404800000000001
        (fst (MemoryStorage_Put 1793404800000000000 Map.empty ''a key'' ''a value'' NoExpiration)) ''a key''
     = (''a value'', None)\<close>
proof -
  have p: \<open>LocalStorage_Put sample_lib no_faults 1793404800000000000 [] ''a key'' ''a value'' NoExpiration
     = ([(''61206b6579'', ''{"key":"a key","value":"YSB2YWx1ZQ==","expiration":0}'')], None)\<close>
    by code_simp
  have r: "codec_roundtrip sample_lib (newEntry 1793404800000000000 ''a key'' ''a value'' NoExpiration)"
    by code_simp
  have f: "fails no_faults = {}"
    by (simp add: no_faults_def)
  from put_get_roundtrip [OF p r f, where now' = 1793404800000000001 and data = Map.empty] p
  show ?thesis by simp
qed

section \<open>Errors of Get\<close>

text \<open>
  Claim C9.  Whenever \<open>Get\<close> returns an error, on either backend, the reader returned
  with it is empty: no partial or stale value comes with an error.  This holds for
  every library, environment, clock reading and store.
\<close>

theorem get_error_reader_empty:
  "(snd (LocalStorage_Get L io now d key) \<noteq> None \<longrightarrow> fst (LocalStorage_Get L io now d key) = [])
   \<and> (snd (fileSystemStorage_Get L io now d key) \<noteq> None
        \<longrightarrow> fst (fileSystemStorage_Get L io now d key) = [])
   \<and> (snd (MemoryStorage_Get now data key) \<noteq> None \<longrightarrow> fst (MemoryStorage_Get now data key) = [])"
proof -
  have "snd (LocalStorage_Get L io now d key) \<noteq> None \<longrightarrow> fst (LocalStorage_Get L io now d key) = []"
    by (simp add: LocalStorage_Get_def Let_def split: sum.splits option.splits)
  moreover have
    "snd (MemoryStorage_Get now data key) \<noteq> None \<longrightarrow> fst (MemoryStorage_Get now data key) = []"
    by (simp add: MemoryStorage_Get_def Let_def split: option.splits)
  ultimately show ?thesis
    by (simp add: fileSystemStorage_Get_eq)
qed

theorem get_error_reader_empty_witness:
  \<open>snd (LocalStorage_Get sample_lib no_faults 1793404800000000000
          [(''61206b6579'', ''{"key":"a key","value":"YSB2YWx1ZQ==","expiration":1000000000}'')]
          ''a key'') = Some NotExistsError
   \<and> fst (LocalStorage_Get sample_lib no_faults 1793404800000000000
          [(''61206b6579'', ''{"key":"a key","value":"YSB2YWx1ZQ==","expiration":1000000000}'')]
          ''a key'') = []
   \<and> snd (fileSystemStorage_Get sample_lib \<lparr>fails = {Seek}, short_write = 0\<rparr> 1793404800000000000
          [(''61206b6579'', ''{"key":"a key","value":"YSB2YWx1ZQ==","expiration":0}'')]
          ''a key'') = Some (IOError Seek)
   \<and> fst (fileSystemStorage_Get sample_lib \<lparr>fails = {Seek}, short_write = 0\<rparr> 1793404800000000000
          [(''61206b6579'', ''{"key":"a key","value":"YSB2YWx1ZQ==","expiration":0}'')]
          ''a key'') = []
   \<and> snd (MemoryStorage_Get 1793404800000000000
          [''a key'' \<mapsto> \<lparr>Key = ''a key'', Value = ''a value'', Expiration = 1000000000\<rparr>]
          ''a key'') = Some NotExistsError
   \<and> fst (MemoryStorage_Get 1793404800000000000
          [''a key'' \<mapsto> \<lparr>Key = ''a key'', Value = ''a value'', Expiration = 1000000000\<rparr>]
          ''a key'') = []\<close>
proof -
  have a: \<open>snd (LocalStorage_Get sample_lib no_faults 1793404800000000000
          [(''61206b6579'', ''{"key":"a key","value":"YSB2YWx1ZQ==","expiration":1000000000}'')]
          ''a key'') = Some NotExistsError\<close>
    by code_simp
  have b: \<open>snd (fileSystemStorage_Get sample_lib \<lparr>fails = {Seek}, short_write = 0\<rparr> 1793404800000000000
          [(''61206b6579'', ''{"key":"a key","value":"YSB2YWx1ZQ==","expiration":0}'')]
          ''a key'') = Some (IOError Seek)\<close>
    by code_simp
  have c: "snd (MemoryStorage_Get 1793404800000000000
          [''a key'' \<mapsto> \<lparr>Key = ''a key'', Value = ''a value'', Expiration = 1000000000\<rparr>]
          ''a key'') = Some NotExistsError"
    by (simp add: MemoryStorage_Get_def isExpired_def word_sless_alt)
  from a b c
    get_error_reader_empty [of sample_lib no_faults 1793404800000000000
       \<open>[(''61206b6579'', ''{"key":"a key","value":"YSB2YWx1ZQ==","expiration":1000000000}'')]\<close>
       "''a key''"]
    get_error_reader_empty [of sample_lib "\<lparr>fails = {Seek}, short_write = 0\<rparr>" 1793404800000000000
       \<open>[(''61206b6579'', ''{"key":"a key","value":"YSB2YWx1ZQ==","expiration":0}'')]\<close>
       "''a key''"]
    get_error_reader_empty [of _ _  1793404800000000000 _ "''a key''"
       "[''a key'' \<mapsto> \<lparr>Key = ''a key'', Value = ''a value'', Expiration = 1000000000\<rparr>]"]
  show ?thesis by simp
qed

section \<open>Signed arithmetic of deadlines\<close>

lemma sint_add_nonpos:
  fixes a d :: int64
  assumes "0 \<le>s a" and "d \<le>s 0"
  shows "a + d \<le>s a"
proof -
  have a: "0 \<le> sint a" and d: "sint d \<le> 0"
    using assms by (simp_all add: word_sle_eq)
  have la: "sint a < 2 ^ 63" using sint_lt [of a] by simp
  have ld: "- (2 ^ 63) \<le> sint d" using sint_ge [of d] by simp
  have "sint (a + d) = sint a + sint d"
    unfolding sint_word_add using a d la ld
    by (simp add: signed_take_bit_int_eq_self)
  then show ?thesis using d by (simp add: word_sle_eq)
qed

lemma isExpired_past:
  fixes now d now' :: int64
  assumes "0 \<le>s now" and "d \<le>s 0" and "0 <s now + d" and "now <s now'"
  shows "isExpired now' (now + d)"
proof -
  have "now + d \<le>s now" by (rule sint_add_nonpos) fact+
  with assms(4) have "now + d <s now'"
    by (simp add: word_sle_eq word_sless_alt)
  with assms(3) show ?thesis by (simp add: isExpired_def)
qed

lemma not_expired_at_write:
  fixes now d :: int64
  assumes "0 \<le>s d"
  shows "\<not> isExpired now (now + d)"
proof (cases "sint now + sint d < 2 ^ 63")
  case True
  have d: "0 \<le> sint d" using assms by (simp add: word_sle_eq)
  have "- (2 ^ 63) \<le> sint now" using sint_ge [of now] by simp
  with d True have "sint (now + d) = sint now + sint d"
    unfolding sint_word_add by (simp add: signed_take_bit_int_eq_self)
  with d show ?thesis by (simp add: isExpired_def word_sless_alt)
next
  case False
  then have "2 ^ 63 \<le> sint now + sint d" by simp
  then have "signed_take_bit 63 (sint now + sint d) \<le> sint now + sint d - 2 ^ Suc 63"
    by (rule signed_take_bit_int_less_eq)
  moreover have "sint now < 2 ^ 63" "sint d < 2 ^ 63"
    using sint_lt [of now] sint_lt [of d] by simp_all
  moreover have "sint (now + d) = signed_take_bit 63 (sint now + sint d)"
    by (simp add: sint_word_add)
  moreover have "(2 :: int) ^ Suc 63 = 2 * 2 ^ 63"
    by simp
  ultimately have "sint (now + d) < 0"
    by linarith
  then show ?thesis by (simp add: isExpired_def word_sless_alt)
qed

section \<open>Put on the in-memory backend\<close>

text \<open>
  Claim C8, as stated: for every key, value and expiration argument, \<open>Put\<close> on the
  in-memory backend returns nil and the new entry is visible to an immediately
  subsequent \<open>Get\<close>.  The second half fails: with the duration \<open>-2\<close> the entry is
  already expired at the very clock reading of the \<open>Put\<close>, and with the duration \<open>0\<close>
  it is expired one nanosecond later.
\<close>

theorem memory_put_visible_counterexample:
  "MemoryStorage_Get 1793404800000000000
     (fst (MemoryStorage_Put 1793404800000000000 Map.empty ''a key'' ''a value'' (- 2))) ''a key''
     = ([], Some NotExistsError)
   \<and> MemoryStorage_Get 1793404800000000001
     (fst (MemoryStorage_Put 1793404800000000000 Map.empty ''a key'' ''a value'' 0)) ''a key''
     = ([], Some NotExistsError)"
  by (simp add: MemoryStorage_Get_def MemoryStorage_Put_def newEntry_def newExpiration_def
        NoExpiration_def isExpired_def word_sless_alt)

text \<open>
  Claim C8, amended: \<open>Put\<close> on the in-memory backend always returns nil, and a
  subsequent \<open>Get\<close> returns the new value exactly when the entry is not expired at the
  time of the read, else not-found.  It is not expired, at any time, when the sentinel
  was given, and at the clock reading of the \<open>Put\<close> itself for every duration \<open>d \<ge> 0\<close>.
\<close>

theorem memory_put_visible:
  "snd (MemoryStorage_Put now data key val d) = None
   \<and> MemoryStorage_Get now' (fst (MemoryStorage_Put now data key val d)) key =
       (if isExpired now' (newExpiration now d) then ([], Some NotExistsError) else (val, None))
   \<and> (d = NoExpiration \<longrightarrow>
        MemoryStorage_Get now' (fst (MemoryStorage_Put now data key val d)) key = (val, None))
   \<and> (now' = now \<and> 0 \<le>s d \<longrightarrow>
        MemoryStorage_Get now' (fst (MemoryStorage_Put now data key val d)) key = (val, None))"
proof -
  have 1: "snd (MemoryStorage_Put now data key val d) = None"
    by (simp add: MemoryStorage_Put_def)
  have 2: "d = NoExpiration \<longrightarrow> \<not> isExpired now' (newExpiration now d)"
    by (simp add: newExpiration_NoExpiration isExpired_zero)
  have 3: "now' = now \<and> 0 \<le>s d \<longrightarrow> \<not> isExpired now' (newExpiration now d)"
    using not_expired_at_write [of d now] by (auto simp: newExpiration_def isExpired_zero)
  show ?thesis using 1 2 3 by (simp add: MemoryStorage_Get_after_Put)
qed


theorem memory_put_visible_witness:
  "MemoryStorage_Get 1793404800000000000
     (fst (MemoryStorage_Put 1793404800000000000 Map.empty ''a key'' ''a value'' 2000000000)) ''a key''
     = (''a value'', None)
   \<and> \<not> isExpired 1793404800000000001 (newExpiration 1793404800000000000 2000000000)
   \<and> MemoryStorage_Get 1793404800000000001
     (fst (MemoryStorage_Put 1793404800000000000 Map.empty ''a key'' ''a value'' 2000000000)) ''a key''
     = (''a value'', None)
   \<and> MemoryStorage_Get 1793404802000000001
     (fst (MemoryStorage_Put 1793404800000000000 Map.empty ''a key'' ''a value'' 2000000000)) ''a key''
     = ([], Some NotExistsError)
   \<and> MemoryStorage_Get 1793404802000000001
     (fst (MemoryStorage_Put 1793404800000000000 Map.empty ''a key'' ''a value'' NoExpiration)) ''a key''
     = (''a value'', None)"
proof -
  have a: "(0 :: int64) \<le>s 2000000000" by (simp add: word_sle_eq)
  have b: "\<not> isExpired 1793404800000000001 (newExpiration 1793404800000000000 2000000000)"
    by (simp add: isExpired_def newExpiration_def NoExpiration_def word_sless_alt)
  have c: "isExpired 1793404802000000001 (newExpiration 1793404800000000000 2000000000)"
    by (simp add: isExpired_def newExpiration_def NoExpiration_def word_sless_alt)
  have w1: "MemoryStorage_Get 1793404800000000000
     (fst (MemoryStorage_Put 1793404800000000000 Map.empty ''a key'' ''a value'' 2000000000)) ''a key''
     = (''a value'', None)"
    using a memory_put_visible [of 1793404800000000000 Map.empty "''a key''" "''a value''" 2000000000
      1793404800000000000] by blast
  have w2: "MemoryStorage_Get 1793404800000000001
     (fst (MemoryStorage_Put 1793404800000000000 Map.empty ''a key'' ''a value'' 2000000000)) ''a key''
     = (''a value'', None)"
    using b memory_put_visible [of 1793404800000000000 Map.empty "''a key''" "''a value''" 2000000000
      1793404800000000001] by presburger
  have w3: "MemoryStorage_Get 1793404802000000001
     (fst (MemoryStorage_Put 1793404800000000000 Map.empty ''a key'' ''a value'' 2000000000)) ''a key''
     = ([], Some NotExistsError)"
    using c memory_put_visible [of 1793404800000000000 Map.empty "''a key''" "''a value''" 2000000000
      1793404802000000001] by presburger
  have w4: "MemoryStorage_Get 1793404802000000001
     (fst (MemoryStorage_Put 1793404800000000000 Map.empty ''a key'' ''a value'' NoExpiration)) ''a key''
     = (''a value'', None)"
    using memory_put_visible [of 1793404800000000000 Map.empty "''a key''" "''a value''" NoExpiration
      1793404802000000001] by blast
  from w1 b w2 w3 w4 show ?thesis by blast
qed

section \<open>The deadline stored by Put\<close>

text \<open>
  Claim C10, as stated: for every duration \<open>d\<close> other than the sentinel the stored
  expiration is the write time plus \<open>d\<close>, so for \<open>d \<le> 0\<close> the entry is already
  expired and every strictly later \<open>Get\<close> reports not-found, and only the sentinel
  produces the expiration 0.  Both consequences fail when the sum is not positive:
  written on 2026-10-31 with \<open>d\<close> of minus two billion seconds, the entry has a negative
  expiration and a later \<open>Get\<close> returns its value; written with \<open>d\<close> the negated clock
  reading, the stored expiration is 0 although \<open>d\<close> is not the sentinel.
\<close>

theorem put_expiration_counterexample:
  "(- 2000000000000000000 :: int64) \<le>s 0
   \<and> (- 2000000000000000000 :: int64) \<noteq> NoExpiration
   \<and> (1793404800000000000 :: int64) <s 1793404800000000001
   \<and> MemoryStorage_Get 1793404800000000001
        (fst (MemoryStorage_Put 1793404800000000000 Map.empty ''a key'' ''a value''
               (- 2000000000000000000))) ''a key''
       = (''a value'', None)
   \<and> (- 1793404800000000000 :: int64) \<noteq> NoExpiration
   \<and> fst (MemoryStorage_Put 1793404800000000000 Map.empty ''a key'' ''a value''
             (- 1793404800000000000)) ''a key''
       = Some \<lparr>Key = ''a key'', Value = ''a value'', Expiration = 0\<rparr>"
  by (simp add: MemoryStorage_Get_def MemoryStorage_Put_def newEntry_def newExpiration_def
        NoExpiration_def isExpired_def word_sless_alt word_sle_eq)

text \<open>
  Claim C10, amended.  \<open>Put\<close> stores, on both backends, the entry whose expiration is
  0 for the sentinel and the 64-bit sum of the write time and \<open>d\<close> for every other
  \<open>d\<close>.  When that sum is positive, every \<open>Get\<close> at a time after the sum reports
  not-found; in particular, for \<open>d \<le> 0\<close> and a clock that is not negative, every
  \<open>Get\<close> strictly after the write.  When the sum is not positive the entry never
  expires, as with the sentinel.  (On disk: for a \<open>Put\<close> that returned no error, a
  \<open>Get\<close> without I/O failure and a library that gives value and expiration back.)
\<close>

theorem put_expiration:
  "fst (MemoryStorage_Put now data key val d) key =
     Some \<lparr>Key = key, Value = val, Expiration = (if d = NoExpiration then 0 else now + d)\<rparr>
   \<and> LocalStorage_Put L io now dir key val d =
     (case json_Marshal L
             \<lparr>Key = key, Value = val, Expiration = (if d = NoExpiration then 0 else now + d)\<rparr> of
        None \<Rightarrow> (dir, Some JSONError)
      | Some dumped \<Rightarrow> dumpToStorage L io dir key dumped)
   \<and> (d \<noteq> NoExpiration \<and> 0 <s now + d \<and> now + d <s now' \<longrightarrow>
        MemoryStorage_Get now' (fst (MemoryStorage_Put now data key val d)) key
          = ([], Some NotExistsError))
   \<and> (d \<noteq> NoExpiration \<and> d \<le>s 0 \<and> 0 \<le>s now \<and> 0 <s now + d \<and> now <s now' \<longrightarrow>
        MemoryStorage_Get now' (fst (MemoryStorage_Put now data key val d)) key
          = ([], Some NotExistsError))
   \<and> (d \<noteq> NoExpiration \<and> now + d \<le>s 0 \<longrightarrow>
        MemoryStorage_Get now' (fst (MemoryStorage_Put now data key val d)) key = (val, None))
   \<and> (LocalStorage_Put L io now dir key val d = (dir', None)
        \<and> codec_roundtrip L (newEntry now key val d) \<and> fails io' = {} \<longrightarrow>
        (d \<noteq> NoExpiration \<and> 0 <s now + d \<and> now + d <s now' \<longrightarrow>
           LocalStorage_Get L io' now' dir' key = ([], Some NotExistsError))
        \<and> (d \<noteq> NoExpiration \<and> d \<le>s 0 \<and> 0 \<le>s now \<and> 0 <s now + d \<and> now <s now' \<longrightarrow>
           LocalStorage_Get L io' now' dir' key = ([], Some NotExistsError))
        \<and> (d \<noteq> NoExpiration \<and> now + d \<le>s 0 \<longrightarrow>
           LocalStorage_Get L io' now' dir' key = (val, None)))"
proof -
  have stored: "fst (MemoryStorage_Put now data key val d) key =
     Some \<lparr>Key = key, Value = val, Expiration = (if d = NoExpiration then 0 else now + d)\<rparr>"
    by (simp add: MemoryStorage_Put_def newEntry_def newExpiration_def)
  have dumped: "LocalStorage_Put L io now dir key val d =
     (case json_Marshal L
             \<lparr>Key = key, Value = val, Expiration = (if d = NoExpiration then 0 else now + d)\<rparr> of
        None \<Rightarrow> (dir, Some JSONError)
      | Some dumped \<Rightarrow> dumpToStorage L io dir key dumped)"
    by (simp add: LocalStorage_Put_def newEntry_def newExpiration_def)
  have later: "isExpired now' (newExpiration now d)"
    if "d \<noteq> NoExpiration" "0 <s now + d" "now + d <s now'"
    using that by (simp add: isExpired_def newExpiration_def)
  have past: "isExpired now' (newExpiration now d)"
    if "d \<noteq> NoExpiration" "d \<le>s 0" "0 \<le>s now" "0 <s now + d" "now <s now'"
    using that isExpired_past [of now d now'] by (simp add: newExpiration_def)
  have never: "\<not> isExpired now' (newExpiration now d)"
    if "d \<noteq> NoExpiration" "now + d \<le>s 0"
    using that by (simp add: isExpired_def newExpiration_def word_sle_eq word_sless_alt)
  have mem: "MemoryStorage_Get now' (fst (MemoryStorage_Put now data key val d)) key =
      (if isExpired now' (newExpiration now d) then ([], Some NotExistsError) else (val, None))"
    by (rule MemoryStorage_Get_after_Put)
  have loc: "LocalStorage_Get L io' now' dir' key =
      (if isExpired now' (newExpiration now d) then ([], Some NotExistsError) else (val, None))"
    if "LocalStorage_Put L io now dir key val d = (dir', None)"
       "codec_roundtrip L (newEntry now key val d)" "fails io' = {}"
    using that by (rule LocalStorage_Get_after_Put)
  show ?thesis
    using stored dumped later past never mem loc by presburger
qed


theorem put_expiration_witness:
  \<open>MemoryStorage_Get 1793404802000000001
     (fst (MemoryStorage_Put 1793404800000000000 Map.empty ''a key'' ''a value'' 2000000000)) ''a key''
     = ([], Some NotExistsError)
   \<and> MemoryStorage_Get 1793404800000000001
     (fst (MemoryStorage_Put 1793404800000000000 Map.empty ''a key'' ''a value'' (- 5000000000))) ''a key''
     = ([], Some NotExistsError)
   \<and> MemoryStorage_Get 1793404800000000001
     (fst (MemoryStorage_Put 1793404800000000000 Map.empty ''a key'' ''a value''
            (- 2000000000000000000))) ''a key''
     = (''a value'', None)
   \<and> LocalStorage_Put sample_lib no_faults 1793404800000000000 [] ''a key'' ''a value'' (- 5000000000)
     = ([(''61206b6579'',
          ''{"key":"a key","value":"YSB2YWx1ZQ==","expiration":1793404795000000000}'')], None)
   \<and> LocalStorage_Get sample_lib no_faults 1793404800000000001
        [(''61206b6579'',
          ''{"key":"a key","value":"YSB2YWx1ZQ==","expiration":1793404795000000000}'')] ''a key''
     = ([], Some NotExistsError)
   \<and> LocalStorage_Put sample_lib no_faults 1793404800000000000 [] ''a key'' ''a value''
        (- 2000000000000000000)
     = ([(''61206b6579'',
          ''{"key":"a key","value":"YSB2YWx1ZQ==","expiration":-206595200000000000}'')], None)
   \<and> LocalStorage_Get sample_lib no_faults 1793404800000000001
        [(''61206b6579'',
          ''{"key":"a key","value":"YSB2YWx1ZQ==","expiration":-206595200000000000}'')] ''a key''
     = (''a value'', None)\<close>
proof -
  have f: "fails no_faults = {}"
    by (simp add: no_faults_def)
  have h1: "(2000000000 :: int64) \<noteq> NoExpiration
      \<and> (0 :: int64) <s 1793404800000000000 + 2000000000
      \<and> (1793404800000000000 :: int64) + 2000000000 <s 1793404802000000001"
    by (simp add: NoExpiration_def word_sless_alt)
  have h2: "(- 5000000000 :: int64) \<noteq> NoExpiration \<and> (- 5000000000 :: int64) \<le>s 0
      \<and> (0 :: int64) \<le>s 1793404800000000000
      \<and> (0 :: int64) <s 1793404800000000000 + - 5000000000
      \<and> (1793404800000000000 :: int64) <s 1793404800000000001"
    by (simp add: NoExpiration_def word_sless_alt word_sle_eq)
  have h3: "(- 2000000000000000000 :: int64) \<noteq> NoExpiration
      \<and> (1793404800000000000 :: int64) + - 2000000000000000000 \<le>s 0"
    by (simp add: NoExpiration_def word_sless_alt word_sle_eq)
  have p2: \<open>LocalStorage_Put sample_lib no_faults 1793404800000000000 [] ''a key'' ''a value''
        (- 5000000000)
     = ([(''61206b6579'',
          ''{"key":"a key","value":"YSB2YWx1ZQ==","expiration":1793404795000000000}'')], None)\<close>
    by code_simp
  have r2: "codec_roundtrip sample_lib (newEntry 1793404800000000000 ''a key'' ''a value'' (- 5000000000))"
    by code_simp
  have p3: \<open>LocalStorage_Put sample_lib no_faults 1793404800000000000 [] ''a key'' ''a value''
        (- 2000000000000000000)
     = ([(''61206b6579'',
          ''{"key":"a key","value":"YSB2YWx1ZQ==","expiration":-206595200000000000}'')], None)\<close>
    by code_simp
  have r3: "codec_roundtrip sample_lib
      (newEntry 1793404800000000000 ''a key'' ''a value'' (- 2000000000000000000))"
    by code_simp
  have w1: "MemoryStorage_Get 1793404802000000001
     (fst (MemoryStorage_Put 1793404800000000000 Map.empty ''a key'' ''a value'' 2000000000)) ''a key''
     = ([], Some NotExistsError)"
    using h1 put_expiration [where now = 1793404800000000000 and d = 2000000000
      and now' = 1793404802000000001 and data = Map.empty and key = "''a key''" and val = "''a value''"]
    by blast
  have w2: "MemoryStorage_Get 1793404800000000001
     (fst (MemoryStorage_Put 1793404800000000000 Map.empty ''a key'' ''a value'' (- 5000000000))) ''a key''
     = ([], Some NotExistsError)"
    using h2 put_expiration [where now = 1793404800000000000 and d = "- 5000000000"
      and now' = 1793404800000000001 and data = Map.empty and key = "''a key''" and val = "''a value''"]
    by blast
  have w3: "MemoryStorage_Get 1793404800000000001
     (fst (MemoryStorage_Put 1793404800000000000 Map.empty ''a key'' ''a value''
            (- 2000000000000000000))) ''a key''
     = (''a value'', None)"
    using h3 put_expiration [where now = 1793404800000000000 and d = "- 2000000000000000000"
      and now' = 1793404800000000001 and data = Map.empty and key = "''a key''" and val = "''a value''"]
    by blast
  have w4: \<open>LocalStorage_Get sample_lib no_faults 1793404800000000001
        [(''61206b6579'',
          ''{"key":"a key","value":"YSB2YWx1ZQ==","expiration":1793404795000000000}'')] ''a key''
     = ([], Some NotExistsError)\<close>
    using h2 p2 r2 f put_expiration [where now = 1793404800000000000 and d = "- 5000000000"
      and now' = 1793404800000000001 and L = sample_lib and io = no_faults and io' = no_faults
      and dir = "[]" and key = "''a key''" and val = "''a value''"]
    by blast
  have w5: \<open>LocalStorage_Get sample_lib no_faults 1793404800000000001
        [(''61206b6579'',
          ''{"key":"a key","value":"YSB2YWx1ZQ==","expiration":-206595200000000000}'')] ''a key''
     = (''a value'', None)\<close>
    using h3 p3 r3 f put_expiration [where now = 1793404800000000000 and d = "- 2000000000000000000"
      and now' = 1793404800000000001 and L = sample_lib and io = no_faults and io' = no_faults
      and dir = "[]" and key = "''a key''" and val = "''a value''"]
    by blast
  from w1 w2 w3 p2 w4 p3 w5 show ?thesis by blast
qed

section \<open>Delete\<close>

lemma deleteStorage_result:
  "deleteStorage io d name =
     (if Mkdir \<in> fails io then (d, Some (IOError Mkdir))
      else if Remove \<in> fails io then (d, Some (IOError Remove))
      else if map_of d name = None then (d, Some NotExistsError)
      else (AList.delete name d, None))"
  by (simp add: deleteStorage_def split: option.splits)

lemma map_of_delete_same: "map_of (AList.delete k d) k = None"
  by (simp add: delete_conv')

text \<open>
  Claim C5, as stated: \<open>Delete\<close> reports not-found exactly when its target does not
  exist or has expired; in particular on a key whose entry exists but is past its
  expiration.  Neither backend looks at the expiration in \<open>Delete\<close>: for an entry that
  expired in 1970, which \<open>Get\<close> reports as not found, \<open>Delete\<close> returns nil and
  removes it.
\<close>

theorem delete_not_found_counterexample:
  \<open>MemoryStorage_Get 1793404800000000000
      [''a key'' \<mapsto> \<lparr>Key = ''a key'', Value = ''a value'', Expiration = 1000000000\<rparr>] ''a key''
     = ([], Some NotExistsError)
   \<and> snd (MemoryStorage_Delete
      [''a key'' \<mapsto> \<lparr>Key = ''a key'', Value = ''a value'', Expiration = 1000000000\<rparr>] ''a key'')
     = None
   \<and> LocalStorage_Get sample_lib no_faults 1793404800000000000
      [(''61206b6579'', ''{"key":"a key","value":"YSB2YWx1ZQ==","expiration":1000000000}'')] ''a key''
     = ([], Some NotExistsError)
   \<and> LocalStorage_Delete sample_lib no_faults
      [(''61206b6579'', ''{"key":"a key","value":"YSB2YWx1ZQ==","expiration":1000000000}'')] ''a key''
     = ([], None)\<close>
proof -
  have \<open>MemoryStorage_Get 1793404800000000000
      [''a key'' \<mapsto> \<lparr>Key = ''a key'', Value = ''a value'', Expiration = 1000000000\<rparr>] ''a key''
     = ([], Some NotExistsError)\<close>
    by (simp add: MemoryStorage_Get_def isExpired_def word_sless_alt)
  moreover have \<open>snd (MemoryStorage_Delete
      [''a key'' \<mapsto> \<lparr>Key = ''a key'', Value = ''a value'', Expiration = 1000000000\<rparr>] ''a key'')
     = None\<close>
    by (simp add: MemoryStorage_Delete_def)
  moreover have \<open>LocalStorage_Get sample_lib no_faults 1793404800000000000
      [(''61206b6579'', ''{"key":"a key","value":"YSB2YWx1ZQ==","expiration":1000000000}'')] ''a key''
     = ([], Some NotExistsError)\<close>
    by code_simp
  moreover have \<open>LocalStorage_Delete sample_lib no_faults
      [(''61206b6579'', ''{"key":"a key","value":"YSB2YWx1ZQ==","expiration":1000000000}'')] ''a key''
     = ([], None)\<close>
    by code_simp
  ultimately show ?thesis by blast
qed

text \<open>
  Claim C5, amended.  \<open>Delete\<close> reports not-found exactly when nothing is stored under
  the key, whether or not a stored entry has expired (on disk: exactly when, in
  addition, \<open>Mkdir\<close> and \<open>Remove\<close> do not fail with an I/O error).  When something
  is stored it removes the entry and returns no error, and a later \<open>Get\<close> of the key
  reports not-found.
\<close>

theorem delete_not_found:
  "(IsNotExist (snd (MemoryStorage_Delete data key)) \<longleftrightarrow> data key = None)
   \<and> (data key = None \<longrightarrow> MemoryStorage_Delete data key = (data, Some NotExistsError))
   \<and> (data key \<noteq> None \<longrightarrow> MemoryStorage_Delete data key = (data(key := None), None))
   \<and> MemoryStorage_Get now (fst (MemoryStorage_Delete data key)) key = ([], Some NotExistsError)
   \<and> (IsNotExist (snd (LocalStorage_Delete L io d key)) \<longleftrightarrow>
        Mkdir \<notin> fails io \<and> Remove \<notin> fails io \<and> map_of d (md5Hash L key) = None)
   \<and> (Mkdir \<notin> fails io \<and> Remove \<notin> fails io \<and> map_of d (md5Hash L key) = None \<longrightarrow>
        LocalStorage_Delete L io d key = (d, Some NotExistsError))
   \<and> (Mkdir \<notin> fails io \<and> Remove \<notin> fails io \<and> map_of d (md5Hash L key) \<noteq> None \<longrightarrow>
        LocalStorage_Delete L io d key = (AList.delete (md5Hash L key) d, None))
   \<and> (fails io = {} \<and> fails io' = {} \<longrightarrow>
        LocalStorage_Get L io' now (fst (LocalStorage_Delete L io d key)) key
          = ([], Some NotExistsError))"
proof -
  have m1: "IsNotExist (snd (MemoryStorage_Delete data key)) \<longleftrightarrow> data key = None"
    by (simp add: MemoryStorage_Delete_def IsNotExist_def split: option.splits)
  have m2: "data key = None \<longrightarrow> MemoryStorage_Delete data key = (data, Some NotExistsError)"
    by (simp add: MemoryStorage_Delete_def)
  have m3: "data key \<noteq> None \<longrightarrow> MemoryStorage_Delete data key = (data(key := None), None)"
    by (auto simp: MemoryStorage_Delete_def)
  have m4: "MemoryStorage_Get now (fst (MemoryStorage_Delete data key)) key = ([], Some NotExistsError)"
    by (simp add: MemoryStorage_Delete_def MemoryStorage_Get_def split: option.splits)
  have l: "LocalStorage_Delete L io d key = deleteStorage io d (md5Hash L key)"
    by (simp add: LocalStorage_Delete_def)
  have l1: "IsNotExist (snd (LocalStorage_Delete L io d key)) \<longleftrightarrow>
        Mkdir \<notin> fails io \<and> Remove \<notin> fails io \<and> map_of d (md5Hash L key) = None"
    by (simp add: l deleteStorage_result IsNotExist_def)
  have l2: "Mkdir \<notin> fails io \<and> Remove \<notin> fails io \<and> map_of d (md5Hash L key) = None \<longrightarrow>
        LocalStorage_Delete L io d key = (d, Some NotExistsError)"
    by (simp add: l deleteStorage_result)
  have l3: "Mkdir \<notin> fails io \<and> Remove \<notin> fails io \<and> map_of d (md5Hash L key) \<noteq> None \<longrightarrow>
        LocalStorage_Delete L io d key = (AList.delete (md5Hash L key) d, None)"
    by (simp add: l deleteStorage_result)
  have l4: "fails io = {} \<and> fails io' = {} \<longrightarrow>
        LocalStorage_Get L io' now (fst (LocalStorage_Delete L io d key)) key
          = ([], Some NotExistsError)"
    by (simp add: l deleteStorage_result LocalStorage_Get_def getStorageData_no_faults
          map_of_delete_same)
  show ?thesis using m1 m2 m3 m4 l1 l2 l3 l4 by blast
qed


theorem delete_not_found_witness:
  \<open>MemoryStorage_Delete Map.empty ''a key'' = (Map.empty, Some NotExistsError)
   \<and> IsNotExist (snd (MemoryStorage_Delete Map.empty ''a key''))
   \<and> MemoryStorage_Delete
        [''a key'' \<mapsto> \<lparr>Key = ''a key'', Value = ''a value'', Expiration = 0\<rparr>] ''a key''
       = ([''a key'' \<mapsto> \<lparr>Key = ''a key'', Value = ''a value'', Expiration = 0\<rparr>](''a key'' := None),
          None)
   \<and> LocalStorage_Delete sample_lib no_faults [] ''a key'' = ([], Some NotExistsError)
   \<and> IsNotExist (snd (LocalStorage_Delete sample_lib no_faults [] ''a key''))
   \<and> LocalStorage_Delete sample_lib no_faults
        [(''61206b6579'', ''{"key":"a key","value":"YSB2YWx1ZQ==","expiration":0}'')] ''a key''
       = (AList.delete ''61206b6579''
            [(''61206b6579'', ''{"key":"a key","value":"YSB2YWx1ZQ==","expiration":0}'')], None)
   \<and> LocalStorage_Get sample_lib no_faults 1793404800000000000
        (fst (LocalStorage_Delete sample_lib no_faults
           [(''61206b6579'', ''{"key":"a key","value":"YSB2YWx1ZQ==","expiration":0}'')] ''a key''))
        ''a key''
       = ([], Some NotExistsError)\<close>
proof -
  have f: "Mkdir \<notin> fails no_faults \<and> Remove \<notin> fails no_faults" "fails no_faults = {}"
    by (simp_all add: no_faults_def)
  have h: "md5Hash sample_lib ''a key'' = ''61206b6579''"
    by code_simp
  have a: "(Map.empty :: table) ''a key'' = None"
    by simp
  have b: "[''a key'' \<mapsto> \<lparr>Key = ''a key'', Value = ''a value'', Expiration = 0\<rparr>] ''a key'' \<noteq> None"
    by simp
  have c: "map_of ([] :: dir) (md5Hash sample_lib ''a key'') = None"
    by simp
  have e: \<open>map_of [(''61206b6579'', ''{"key":"a key","value":"YSB2YWx1ZQ==","expiration":0}'')]
            (md5Hash sample_lib ''a key'') \<noteq> None\<close>
    by (simp add: h)
  note t1 = delete_not_found [where data = Map.empty and key = "''a key''" and L = sample_lib
      and io = no_faults and io' = no_faults and d = "[]"]
  note t2 = delete_not_found [where
      data = "[''a key'' \<mapsto> \<lparr>Key = ''a key'', Value = ''a value'', Expiration = 0\<rparr>]"
      and key = "''a key''" and L = sample_lib and io = no_faults and io' = no_faults
      and now = 1793404800000000000
      and d = \<open>[(''61206b6579'', ''{"key":"a key","value":"YSB2YWx1ZQ==","expiration":0}'')]\<close>]
  have w1: "MemoryStorage_Delete Map.empty ''a key'' = (Map.empty, Some NotExistsError)"
    using a t1 by blast
  have w2: "IsNotExist (snd (MemoryStorage_Delete Map.empty ''a key''))"
    using a t1 by blast
  have w3: "MemoryStorage_Delete
        [''a key'' \<mapsto> \<lparr>Key = ''a key'', Value = ''a value'', Expiration = 0\<rparr>] ''a key''
       = ([''a key'' \<mapsto> \<lparr>Key = ''a key'', Value = ''a value'', Expiration = 0\<rparr>](''a key'' := None),
          None)"
    using b t2 by blast
  have w4: "LocalStorage_Delete sample_lib no_faults [] ''a key'' = ([], Some NotExistsError)"
    using c f t1 by blast
  have w5: "IsNotExist (snd (LocalStorage_Delete sample_lib no_faults [] ''a key''))"
    using c f t1 by blast
  have w6: \<open>LocalStorage_Delete sample_lib no_faults
        [(''61206b6579'', ''{"key":"a key","value":"YSB2YWx1ZQ==","expiration":0}'')] ''a key''
       = (AList.delete (md5Hash sample_lib ''a key'')
            [(''61206b6579'', ''{"key":"a key","value":"YSB2YWx1ZQ==","expiration":0}'')], None)\<close>
    using e f t2 by blast
  have w7: \<open>LocalStorage_Get sample_lib no_faults 1793404800000000000
        (fst (LocalStorage_Delete sample_lib no_faults
           [(''61206b6579'', ''{"key":"a key","value":"YSB2YWx1ZQ==","expiration":0}'')] ''a key''))
        ''a key''
       = ([], Some NotExistsError)\<close>
    using f t2 by blast
  from w1 w2 w3 w4 w5 w6 [unfolded h] w7 show ?thesis by blast
qed

section \<open>Put over an existing key\<close>

lemma LocalStorage_Put_error_indep:
  "snd (LocalStorage_Put L io now d key val e) = snd (LocalStorage_Put L io now d0 key val e)"
  by (simp add: LocalStorage_Put_def dumpToStorage_error_indep [of L io d key _ d0]
        split: option.splits)

lemma LocalStorage_Put_no_faults:
  "fails io = {} \<Longrightarrow> json_Marshal L (newEntry now key val e) \<noteq> None \<Longrightarrow>
   snd (LocalStorage_Put L io now d key val e) = None"
  by (auto simp: LocalStorage_Put_def dumpToStorage_no_faults split: option.splits)

text \<open>
  Claim C3, as stated: \<open>Put\<close> overwrites an existing entry unconditionally and never
  fails because the key exists; after any first \<open>Put\<close>, a second \<open>Put\<close> succeeds and
  a subsequent \<open>Get\<close> observes the second value.  The last part fails for a second
  \<open>Put\<close> whose entry has expired when the \<open>Get\<close> reads the clock: with the duration
  0 the second \<open>Put\<close> returns nil on both backends, and one nanosecond later \<open>Get\<close>
  reports not-found instead of the second value.
\<close>

theorem put_overwrites_counterexample:
  \<open>snd (MemoryStorage_Put 1793404800000000001
          (fst (MemoryStorage_Put 1793404800000000000 Map.empty ''a key'' ''a value'' NoExpiration))
          ''a key'' ''another value'' 0) = None
   \<and> MemoryStorage_Get 1793404800000000002
        (fst (MemoryStorage_Put 1793404800000000001
           (fst (MemoryStorage_Put 1793404800000000000 Map.empty ''a key'' ''a value'' NoExpiration))
           ''a key'' ''another value'' 0)) ''a key''
     = ([], Some NotExistsError)
   \<and> LocalStorage_Put sample_lib no_faults 1793404800000000001
        (fst (LocalStorage_Put sample_lib no_faults 1793404800000000000 [] ''a key'' ''a value''
                NoExpiration))
        ''a key'' ''another value'' 0
     = ([(''61206b6579'',
          ''{"key":"a key","value":"YW5vdGhlciB2YWx1ZQ==","expiration":1793404800000000001}'')], None)
   \<and> LocalStorage_Get sample_lib no_faults 1793404800000000002
        [(''61206b6579'',
          ''{"key":"a key","value":"YW5vdGhlciB2YWx1ZQ==","expiration":1793404800000000001}'')] ''a key''
     = ([], Some NotExistsError)\<close>
proof -
  have \<open>snd (MemoryStorage_Put 1793404800000000001
          (fst (MemoryStorage_Put 1793404800000000000 Map.empty ''a key'' ''a value'' NoExpiration))
          ''a key'' ''another value'' 0) = None\<close>
    by (simp add: MemoryStorage_Put_def)
  moreover have \<open>MemoryStorage_Get 1793404800000000002
        (fst (MemoryStorage_Put 1793404800000000001
           (fst (MemoryStorage_Put 1793404800000000000 Map.empty ''a key'' ''a value'' NoExpiration))
           ''a key'' ''another value'' 0)) ''a key''
     = ([], Some NotExistsError)\<close>
    by (simp add: MemoryStorage_Get_def MemoryStorage_Put_def newEntry_def newExpiration_def
          NoExpiration_def isExpired_def word_sless_alt)
  moreover have \<open>LocalStorage_Put sample_lib no_faults 1793404800000000001
        (fst (LocalStorage_Put sample_lib no_faults 1793404800000000000 [] ''a key'' ''a value''
                NoExpiration))
        ''a key'' ''another value'' 0
     = ([(''61206b6579'',
          ''{"key":"a key","value":"YW5vdGhlciB2YWx1ZQ==","expiration":1793404800000000001}'')], None)\<close>
    by code_simp
  moreover have \<open>LocalStorage_Get sample_lib no_faults 1793404800000000002
        [(''61206b6579'',
          ''{"key":"a key","value":"YW5vdGhlciB2YWx1ZQ==","expiration":1793404800000000001}'')] ''a key''
     = ([], Some NotExistsError)\<close>
    by code_simp
  ultimately show ?thesis by blast
qed

text \<open>
  Claim C3, amended.  \<open>Put\<close> overwrites an existing entry unconditionally and never
  fails because the key exists.  After any first \<open>Put\<close> of the key (successful or not), the
  error of a second \<open>Put\<close> is the one it returns on an empty directory; it is nil when
  no system call fails and the entry can be marshalled, and always nil in memory.  After
  a second \<open>Put\<close> that returned nil, \<open>Get\<close> observes the second value as long as the
  second entry has not expired at the time of the read, and not-found afterwards; it
  never observes the first value.
\<close>

theorem put_overwrites:
  "snd (LocalStorage_Put L io2 now2 (fst (LocalStorage_Put L io1 now1 d key v1 e1)) key v2 e2)
     = snd (LocalStorage_Put L io2 now2 [] key v2 e2)
   \<and> (fails io2 = {} \<and> json_Marshal L (newEntry now2 key v2 e2) \<noteq> None \<longrightarrow>
        snd (LocalStorage_Put L io2 now2 (fst (LocalStorage_Put L io1 now1 d key v1 e1)) key v2 e2)
          = None)
   \<and> (snd (LocalStorage_Put L io2 now2 (fst (LocalStorage_Put L io1 now1 d key v1 e1)) key v2 e2)
          = None
        \<and> codec_roundtrip L (newEntry now2 key v2 e2) \<and> fails io3 = {} \<longrightarrow>
        LocalStorage_Get L io3 now3
          (fst (LocalStorage_Put L io2 now2 (fst (LocalStorage_Put L io1 now1 d key v1 e1)) key v2 e2))
          key
          = (if isExpired now3 (newExpiration now2 e2) then ([], Some NotExistsError) else (v2, None)))
   \<and> snd (MemoryStorage_Put now2 (fst (MemoryStorage_Put now1 data key v1 e1)) key v2 e2) = None
   \<and> MemoryStorage_Get now3
        (fst (MemoryStorage_Put now2 (fst (MemoryStorage_Put now1 data key v1 e1)) key v2 e2)) key
       = (if isExpired now3 (newExpiration now2 e2) then ([], Some NotExistsError) else (v2, None))"
proof -
  let ?d1 = "fst (LocalStorage_Put L io1 now1 d key v1 e1)"
  have a: "snd (LocalStorage_Put L io2 now2 ?d1 key v2 e2) = snd (LocalStorage_Put L io2 now2 [] key v2 e2)"
    by (rule LocalStorage_Put_error_indep)
  have b: "fails io2 = {} \<and> json_Marshal L (newEntry now2 key v2 e2) \<noteq> None \<longrightarrow>
        snd (LocalStorage_Put L io2 now2 ?d1 key v2 e2) = None"
    by (simp add: LocalStorage_Put_no_faults)
  have c: "LocalStorage_Get L io3 now3 (fst (LocalStorage_Put L io2 now2 ?d1 key v2 e2)) key
          = (if isExpired now3 (newExpiration now2 e2) then ([], Some NotExistsError) else (v2, None))"
    if "snd (LocalStorage_Put L io2 now2 ?d1 key v2 e2) = None"
      "codec_roundtrip L (newEntry now2 key v2 e2)" "fails io3 = {}"
  proof -
    from that(1) have "LocalStorage_Put L io2 now2 ?d1 key v2 e2
        = (fst (LocalStorage_Put L io2 now2 ?d1 key v2 e2), None)"
      by (metis prod.collapse)
    from LocalStorage_Get_after_Put [OF this that(2) that(3)] show ?thesis .
  qed
  have m: "snd (MemoryStorage_Put now2 (fst (MemoryStorage_Put now1 data key v1 e1)) key v2 e2) = None"
    by (simp add: MemoryStorage_Put_def)
  have g: "MemoryStorage_Get now3
        (fst (MemoryStorage_Put now2 (fst (MemoryStorage_Put now1 data key v1 e1)) key v2 e2)) key
       = (if isExpired now3 (newExpiration now2 e2) then ([], Some NotExistsError) else (v2, None))"
    by (rule MemoryStorage_Get_after_Put)
  show ?thesis using a b c m g by blast
qed

theorem put_overwrites_witness:
  \<open>LocalStorage_Put sample_lib no_faults 1793404800000000000 [] ''a key'' ''a value'' NoExpiration
     = ([(''61206b6579'', ''{"key":"a key","value":"YSB2YWx1ZQ==","expiration":0}'')], None)
   \<and> LocalStorage_Put sample_lib no_faults 1793404800000000001
       [(''61206b6579'', ''{"key":"a key","value":"YSB2YWx1ZQ==","expiration":0}'')]
       ''a key'' ''another value'' 2000000000
     = ([(''61206b6579'',
          ''{"key":"a key","value":"YW5vdGhlciB2YWx1ZQ==","expiration":1793404802000000001}'')], None)
   \<and> LocalStorage_Get sample_lib no_faults 1793404800000000002
       [(''61206b6579'',
          ''{"key":"a key","value":"YW5vdGhlciB2YWx1ZQ==","expiration":1793404802000000001}'')] ''a key''
     = (''another value'', None)
   \<and> MemoryStorage_Get 1793404800000000002
        (fst (MemoryStorage_Put 1793404800000000001
           (fst (MemoryStorage_Put 1793404800000000000 Map.empty ''a key'' ''a value'' NoExpiration))
           ''a key'' ''another value'' 2000000000)) ''a key''
     = (''another value'', None)\<close>
proof -
  have f: "fails no_faults = {}"
    by (simp add: no_faults_def)
  have p1: \<open>LocalStorage_Put sample_lib no_faults 1793404800000000000 [] ''a key'' ''a value'' NoExpiration
     = ([(''61206b6579'', ''{"key":"a key","value":"YSB2YWx1ZQ==","expiration":0}'')], None)\<close>
    by code_simp
  have p2: \<open>LocalStorage_Put sample_lib no_faults 1793404800000000001
       [(''61206b6579'', ''{"key":"a key","value":"YSB2YWx1ZQ==","expiration":0}'')]
       ''a key'' ''another value'' 2000000000
     = ([(''61206b6579'',
          ''{"key":"a key","value":"YW5vdGhlciB2YWx1ZQ==","expiration":1793404802000000001}'')], None)\<close>
    by code_simp
  have m: "json_Marshal sample_lib (newEntry 1793404800000000001 ''a key'' ''another value'' 2000000000)
      \<noteq> None"
    by (simp add: sample_lib_def sample_Marshal_def)
  have r: "codec_roundtrip sample_lib
      (newEntry 1793404800000000001 ''a key'' ''another value'' 2000000000)"
    by code_simp
  have x: "\<not> isExpired 1793404800000000002 (newExpiration 1793404800000000001 2000000000)"
    by (simp add: isExpired_def newExpiration_def NoExpiration_def word_sless_alt)
  note t = put_overwrites [where L = sample_lib and ?io1.0 = no_faults and ?io2.0 = no_faults
      and ?io3.0 = no_faults and ?now1.0 = 1793404800000000000 and ?now2.0 = 1793404800000000001
      and ?now3.0 = 1793404800000000002 and d = "[]" and data = Map.empty and key = "''a key''"
      and ?v1.0 = "''a value''" and ?v2.0 = "''another value''" and ?e1.0 = NoExpiration
      and ?e2.0 = 2000000000]
  have s2: "snd (LocalStorage_Put sample_lib no_faults 1793404800000000001
       (fst (LocalStorage_Put sample_lib no_faults 1793404800000000000 [] ''a key'' ''a value''
               NoExpiration))
       ''a key'' ''another value'' 2000000000) = None"
    using f m t by blast
  have w3: "LocalStorage_Get sample_lib no_faults 1793404800000000002
       (fst (LocalStorage_Put sample_lib no_faults 1793404800000000001
         (fst (LocalStorage_Put sample_lib no_faults 1793404800000000000 [] ''a key'' ''a value''
               NoExpiration))
         ''a key'' ''another value'' 2000000000)) ''a key''
     = (''another value'', None)"
    using s2 r f x t by presburger
  have w4: "MemoryStorage_Get 1793404800000000002
        (fst (MemoryStorage_Put 1793404800000000001
           (fst (MemoryStorage_Put 1793404800000000000 Map.empty ''a key'' ''a value'' NoExpiration))
           ''a key'' ''another value'' 2000000000)) ''a key''
     = (''another value'', None)"
    using x t by presburger
  from p1 p2 w3 w4 show ?thesis by simp
qed

section \<open>The scan loops as selections\<close>

text \<open>
  Both loops append, in the order of the visit, the object of every key that
  contributes an entry, and nothing else.  Removing a key that contributes nothing
  leaves the result unchanged.
\<close>

lemma Join_Cons: "Join (x # xs) sep = x @ concat (map (\<lambda>y. sep @ y) xs)"
  by (induction xs arbitrary: x) simp_all

lemma Sprintf_object_wire: "Sprintf_object e = wire_object e"
  by (simp add: Sprintf_object_def wire_object_def)

lemma Sprintf_array_wire: "Sprintf_array (map Sprintf_object es) = wire_array es"
proof (cases es)
  case Nil
  then show ?thesis by (simp add: Sprintf_array_def)
next
  case (Cons e es')
  then show ?thesis
    by (simp add: Sprintf_array_def Join_Cons Sprintf_object_wire comp_def)
qed

lemma MemoryStorage_loop_eq:
  "MemoryStorage_GetPattern_loop L clock data pattern keys ret =
     ret @ map Sprintf_object (List.map_filter (MemoryStorage_visible L clock data pattern) keys)"
proof (induction keys arbitrary: ret)
  case Nil
  then show ?case by (simp add: List.map_filter_simps)
next
  case (Cons key keys)
  show ?case
    by (cases "data key")
       (auto simp: Cons List.map_filter_simps MemoryStorage_visible_def split: prod.splits)
qed

lemma LocalStorage_loop_eq:
  "LocalStorage_GetPattern_loop L ios clock d pattern keys ret =
     ret @ map Sprintf_object (List.map_filter (LocalStorage_visible L ios clock d pattern) keys)"
proof (induction keys arbitrary: ret)
  case Nil
  then show ?case by (simp add: List.map_filter_simps)
next
  case (Cons key keys)
  show ?case
    by (auto simp: Cons List.map_filter_simps LocalStorage_visible_def LocalStorage_decoded_def
          split: prod.splits sum.splits option.splits)
qed

lemma MemoryStorage_GetPattern_eq:
  "MemoryStorage_GetPattern L clock data keys pattern =
     (wire_array (List.map_filter (MemoryStorage_visible L clock data pattern) keys), None)"
  by (simp add: MemoryStorage_GetPattern_def MemoryStorage_loop_eq Sprintf_array_wire)

lemma LocalStorage_GetPattern_eq:
  "LocalStorage_GetPattern L io ios clock d pattern =
     (if Mkdir \<in> fails io then ([], Some (IOError Mkdir))
      else if ReadDir \<in> fails io then ([], Some (IOError ReadDir))
      else (wire_array (List.map_filter (LocalStorage_visible L ios clock d pattern)
                          (sort (remdups (map fst d)))), None))"
  by (simp add: LocalStorage_GetPattern_def getAllStorageKeys_def LocalStorage_loop_eq
        Sprintf_array_wire)

lemma map_filter_all_None:
  "(\<forall>x \<in> set xs. f x = None) \<Longrightarrow> List.map_filter f xs = []"
  by (induction xs) (simp_all add: List.map_filter_simps)

lemma length_map_filter:
  "distinct xs \<Longrightarrow> length (List.map_filter f xs) = card {x \<in> set xs. f x \<noteq> None}"
proof -
  assume d: "distinct xs"
  have "length (List.map_filter f xs) = length (filter (\<lambda>x. f x \<noteq> None) xs)"
    by (simp add: List.map_filter_def)
  also have "\<dots> = card ({x. f x \<noteq> None} \<inter> set xs)"
    using d by (rule distinct_length_filter)
  also have "{x. f x \<noteq> None} \<inter> set xs = {x \<in> set xs. f x \<noteq> None}"
    by auto
  finally show ?thesis .
qed

lemma map_filter_removed:
  assumes "f k = None" and "\<And>x. x \<noteq> k \<Longrightarrow> g x = f x"
  shows "List.map_filter g (removeAll k xs) = List.map_filter f xs"
  using assms by (induction xs) (auto simp: List.map_filter_simps split: option.splits)

lemma listing_delete:
  "sort (remdups (map fst (AList.delete k d))) = removeAll k (sort (remdups (map fst d)))"
  by (simp add: delete_keys removeAll_filter_not_eq remdups_filter filter_sort)

lemma LocalStorage_decoded_delete:
  "n \<noteq> k \<Longrightarrow> LocalStorage_decoded L io (AList.delete k d) n = LocalStorage_decoded L io d n"
  by (simp add: LocalStorage_decoded_def getStorageData_def getReader_def)

lemma LocalStorage_visible_delete:
  "n \<noteq> k \<Longrightarrow> LocalStorage_visible L ios clock (AList.delete k d) pattern n
      = LocalStorage_visible L ios clock d pattern n"
  by (simp add: LocalStorage_visible_def LocalStorage_decoded_delete)

lemma LocalStorage_GetPattern_delete:
  assumes "LocalStorage_visible L ios clock d pattern name = None"
  shows "LocalStorage_GetPattern L io ios clock (AList.delete name d) pattern
       = LocalStorage_GetPattern L io ios clock d pattern"
proof -
  have "List.map_filter (LocalStorage_visible L ios clock (AList.delete name d) pattern)
          (removeAll name (sort (remdups (map fst d))))
      = List.map_filter (LocalStorage_visible L ios clock d pattern) (sort (remdups (map fst d)))"
    using assms by (rule map_filter_removed) (simp add: LocalStorage_visible_delete)
  then show ?thesis
    by (simp add: LocalStorage_GetPattern_eq listing_delete)
qed

lemma MemoryStorage_GetPattern_delete:
  assumes "MemoryStorage_visible L clock data pattern k = None"
  shows "MemoryStorage_GetPattern L clock (data(k := None)) (removeAll k keys) pattern
       = MemoryStorage_GetPattern L clock data keys pattern"
proof -
  have "List.map_filter (MemoryStorage_visible L clock (data(k := None)) pattern) (removeAll k keys)
      = List.map_filter (MemoryStorage_visible L clock data pattern) keys"
    using assms by (rule map_filter_removed) (simp add: MemoryStorage_visible_def)
  then show ?thesis
    by (simp add: MemoryStorage_GetPattern_eq)
qed

lemma LocalStorage_visible_dom:
  "LocalStorage_visible L ios clock d pattern n \<noteq> None \<Longrightarrow> n \<in> fst ` set d"
proof -
  assume "LocalStorage_visible L ios clock d pattern n \<noteq> None"
  then have "map_of d n \<noteq> None"
    by (auto simp: LocalStorage_visible_def LocalStorage_decoded_def getStorageData_def
          getReader_def split: option.splits if_splits sum.splits)
  then show ?thesis
    by (simp add: map_of_eq_None_iff)
qed

lemma MemoryStorage_visible_dom:
  "MemoryStorage_visible L clock data pattern k \<noteq> None \<Longrightarrow> k \<in> dom data"
  by (auto simp: MemoryStorage_visible_def split: option.splits)

section \<open>The result of GetPattern\<close>

text \<open>
  Claim C6.  \<open>GetPattern\<close> returns the bytes
  \<^verbatim>\<open>[{"<key1>":"<value1>"},{"<key2>":"<value2>"},...]\<close> with one object per matching,
  non-expired entry, and exactly \<^verbatim>\<open>[]\<close> with no error when there is none, the empty
  store included.  In memory the objects are those of the keys that contribute an
  entry, in the order of the visit, and when the visit meets every key once their
  number is the number of such keys.  On disk the same holds over the sorted listing
  of the directory, whenever the listing itself does not fail.
\<close>

theorem get_pattern_format:
  "MemoryStorage_GetPattern L clock data keys pattern =
     (wire_array (List.map_filter (MemoryStorage_visible L clock data pattern) keys), None)
   \<and> (distinct keys \<and> set keys = dom data \<longrightarrow>
        length (List.map_filter (MemoryStorage_visible L clock data pattern) keys)
          = card {k. MemoryStorage_visible L clock data pattern k \<noteq> None})
   \<and> ((\<forall>k \<in> set keys. MemoryStorage_visible L clock data pattern k = None) \<longrightarrow>
        MemoryStorage_GetPattern L clock data keys pattern = (''[]'', None))
   \<and> MemoryStorage_GetPattern L clock Map.empty keys pattern = (''[]'', None)
   \<and> (Mkdir \<notin> fails io \<and> ReadDir \<notin> fails io \<longrightarrow>
        LocalStorage_GetPattern L io ios clock d pattern =
          (wire_array (List.map_filter (LocalStorage_visible L ios clock d pattern)
                         (sort (remdups (map fst d)))), None)
        \<and> length (List.map_filter (LocalStorage_visible L ios clock d pattern)
                    (sort (remdups (map fst d))))
            = card {n. LocalStorage_visible L ios clock d pattern n \<noteq> None}
        \<and> ((\<forall>n \<in> fst ` set d. LocalStorage_visible L ios clock d pattern n = None) \<longrightarrow>
             LocalStorage_GetPattern L io ios clock d pattern = (''[]'', None))
        \<and> LocalStorage_GetPattern L io ios clock [] pattern = (''[]'', None))"
proof -
  let ?mv = "MemoryStorage_visible L clock data pattern"
  let ?lv = "LocalStorage_visible L ios clock d pattern"
  let ?names = "sort (remdups (map fst d))"
  have m1: "MemoryStorage_GetPattern L clock data keys pattern
      = (wire_array (List.map_filter ?mv keys), None)"
    by (rule MemoryStorage_GetPattern_eq)
  have m2: "length (List.map_filter ?mv keys) = card {k. ?mv k \<noteq> None}"
    if "distinct keys" "set keys = dom data"
  proof -
    have "{k \<in> set keys. ?mv k \<noteq> None} = {k. ?mv k \<noteq> None}"
      using that(2) MemoryStorage_visible_dom [of L clock data pattern] by blast
    with length_map_filter [OF that(1), of ?mv] show ?thesis by simp
  qed
  have m3: "MemoryStorage_GetPattern L clock data keys pattern = (''[]'', None)"
    if "\<forall>k \<in> set keys. ?mv k = None"
    using map_filter_all_None [OF that] by (simp add: m1)
  have m4: "MemoryStorage_GetPattern L clock Map.empty keys pattern = (''[]'', None)"
    by (simp add: MemoryStorage_GetPattern_eq map_filter_all_None MemoryStorage_visible_def)
  have l1: "LocalStorage_GetPattern L io ios clock d pattern
      = (wire_array (List.map_filter ?lv ?names), None)"
    if "Mkdir \<notin> fails io" "ReadDir \<notin> fails io"
    using that by (simp add: LocalStorage_GetPattern_eq)
  have l2: "length (List.map_filter ?lv ?names) = card {n. ?lv n \<noteq> None}"
  proof -
    have "{n \<in> set ?names. ?lv n \<noteq> None} = {n. ?lv n \<noteq> None}"
      using LocalStorage_visible_dom [of L ios clock d pattern] by force
    moreover have "distinct ?names" by simp
    ultimately show ?thesis using length_map_filter [of ?names ?lv] by simp
  qed
  have l3: "LocalStorage_GetPattern L io ios clock d pattern = (''[]'', None)"
    if "Mkdir \<notin> fails io" "ReadDir \<notin> fails io" "\<forall>n \<in> fst ` set d. ?lv n = None"
  proof -
    from that(3) have "\<forall>n \<in> set ?names. ?lv n = None" by simp
    from map_filter_all_None [OF this] show ?thesis by (simp add: l1 that(1,2))
  qed
  have l4: "LocalStorage_GetPattern L io ios clock [] pattern = (''[]'', None)"
    if "Mkdir \<notin> fails io" "ReadDir \<notin> fails io"
    using that by (simp add: LocalStorage_GetPattern_eq List.map_filter_simps)
  show ?thesis using m1 m2 m3 m4 l1 l2 l3 l4 by blast
qed


theorem get_pattern_format_witness:
  \<open>MemoryStorage_GetPattern sample_lib (\<lambda>_. 1793404800000000000)
        [''a key'' \<mapsto> \<lparr>Key = ''a key'', Value = ''a value'', Expiration = 0\<rparr>,
         ''another key'' \<mapsto> \<lparr>Key = ''another key'', Value = ''another value'', Expiration = 0\<rparr>]
        [''another key'', ''a key''] ''another*''
     = (''[{"another key":"another value"}]'', None)
   \<and> MemoryStorage_GetPattern sample_lib (\<lambda>_. 1793404800000000000)
        [''a key'' \<mapsto> \<lparr>Key = ''a key'', Value = ''a value'', Expiration = 0\<rparr>,
         ''another key'' \<mapsto> \<lparr>Key = ''another key'', Value = ''another value'', Expiration = 0\<rparr>]
        [''another key'', ''a key''] ''*''
     = (''[{"another key":"another value"},{"a key":"a value"}]'', None)
   \<and> card {k. MemoryStorage_visible sample_lib (\<lambda>_. 1793404800000000000)
        [''a key'' \<mapsto> \<lparr>Key = ''a key'', Value = ''a value'', Expiration = 0\<rparr>,
         ''another key'' \<mapsto> \<lparr>Key = ''another key'', Value = ''another value'', Expiration = 0\<rparr>]
        ''another*'' k \<noteq> None} = 1
   \<and> MemoryStorage_GetPattern sample_lib (\<lambda>_. 1793404800000000000)
        [''a key'' \<mapsto> \<lparr>Key = ''a key'', Value = ''a value'', Expiration = 0\<rparr>,
         ''another key'' \<mapsto> \<lparr>Key = ''another key'', Value = ''another value'', Expiration = 0\<rparr>]
        [''another key'', ''a key''] ''a*glob?''
     = (''[]'', None)
   \<and> LocalStorage_GetPattern sample_lib no_faults (\<lambda>_. no_faults) (\<lambda>_. 1793404800000000000)
        [(''61206b6579'', ''{"key":"a key","value":"YSB2YWx1ZQ==","expiration":0}''),
         (''616e6f74686572206b6579'',
          ''{"key":"another key","value":"YW5vdGhlciB2YWx1ZQ==","expiration":0}'')]
        ''another*''
     = (''[{"another key":"another value"}]'', None)
   \<and> LocalStorage_GetPattern sample_lib no_faults (\<lambda>_. no_faults) (\<lambda>_. 1793404800000000000)
        [(''61206b6579'', ''{"key":"a key","value":"YSB2YWx1ZQ==","expiration":0}''),
         (''616e6f74686572206b6579'',
          ''{"key":"another key","value":"YW5vdGhlciB2YWx1ZQ==","expiration":0}'')]
        ''*''
     = (''[{"a key":"a value"},{"another key":"another value"}]'', None)
   \<and> LocalStorage_GetPattern sample_lib no_faults (\<lambda>_. no_faults) (\<lambda>_. 1793404800000000000)
        [(''61206b6579'', ''{"key":"a key","value":"YSB2YWx1ZQ==","expiration":0}''),
         (''616e6f74686572206b6579'',
          ''{"key":"another key","value":"YW5vdGhlciB2YWx1ZQ==","expiration":0}'')]
        ''a*glob?''
     = (''[]'', None)
   \<and> LocalStorage_GetPattern sample_lib no_faults (\<lambda>_. no_faults) (\<lambda>_. 1793404800000000000)
        [] ''*''
     = (''[]'', None)\<close>
proof -
  let ?data = \<open>[''a key'' \<mapsto> \<lparr>Key = ''a key'', Value = ''a value'', Expiration = 0\<rparr>,
         ''another key'' \<mapsto> \<lparr>Key = ''another key'', Value = ''another value'', Expiration = 0\<rparr>]\<close>
  let ?d = \<open>[(''61206b6579'', ''{"key":"a key","value":"YSB2YWx1ZQ==","expiration":0}''),
         (''616e6f74686572206b6579'',
          ''{"key":"another key","value":"YW5vdGhlciB2YWx1ZQ==","expiration":0}'')]\<close>
  let ?clock = "\<lambda>_ :: string. 1793404800000000000 :: int64"
  let ?ios = "\<lambda>_ :: string. no_faults"
  have f: "Mkdir \<notin> fails no_faults \<and> ReadDir \<notin> fails no_faults"
    by (simp add: no_faults_def)
  have k: "distinct [''another key'', ''a key''] \<and> set [''another key'', ''a key''] = dom ?data"
    by auto
  have e1: \<open>wire_array (List.map_filter (MemoryStorage_visible sample_lib ?clock ?data ''another*'')
              [''another key'', ''a key'']) = ''[{"another key":"another value"}]''\<close>
    by code_simp
  have e2: \<open>wire_array (List.map_filter (MemoryStorage_visible sample_lib ?clock ?data ''*'')
              [''another key'', ''a key''])
            = ''[{"another key":"another value"},{"a key":"a value"}]''\<close>
    by code_simp
  have e3: \<open>length (List.map_filter (MemoryStorage_visible sample_lib ?clock ?data ''another*'')
              [''another key'', ''a key'']) = 1\<close>
    by code_simp
  have e4: \<open>\<forall>k \<in> set [''another key'', ''a key''].
              MemoryStorage_visible sample_lib ?clock ?data ''a*glob?'' k = None\<close>
    by code_simp
  have e5: \<open>wire_array (List.map_filter (LocalStorage_visible sample_lib ?ios ?clock ?d ''another*'')
              (sort (remdups (map fst ?d)))) = ''[{"another key":"another value"}]''\<close>
    by code_simp
  have e6: \<open>wire_array (List.map_filter (LocalStorage_visible sample_lib ?ios ?clock ?d ''*'')
              (sort (remdups (map fst ?d))))
            = ''[{"a key":"a value"},{"another key":"another value"}]''\<close>
    by code_simp
  have e7: \<open>\<forall>n \<in> fst ` set ?d. LocalStorage_visible sample_lib ?ios ?clock ?d ''a*glob?'' n = None\<close>
    by code_simp
  note t1 = get_pattern_format [where L = sample_lib and clock = ?clock and data = ?data
      and keys = "[''another key'', ''a key'']" and pattern = "''another*''" and io = no_faults
      and ios = ?ios and d = ?d]
  note t2 = get_pattern_format [where L = sample_lib and clock = ?clock and data = ?data
      and keys = "[''another key'', ''a key'']" and pattern = "''*''" and io = no_faults
      and ios = ?ios and d = ?d]
  note t3 = get_pattern_format [where L = sample_lib and clock = ?clock and data = ?data
      and keys = "[''another key'', ''a key'']" and pattern = "''a*glob?''" and io = no_faults
      and ios = ?ios and d = ?d]
  have w1: \<open>MemoryStorage_GetPattern sample_lib ?clock ?data [''another key'', ''a key''] ''another*''
     = (''[{"another key":"another value"}]'', None)\<close>
    using t1 e1 by presburger
  have w2: \<open>MemoryStorage_GetPattern sample_lib ?clock ?data [''another key'', ''a key''] ''*''
     = (''[{"another key":"another value"},{"a key":"a value"}]'', None)\<close>
    using t2 e2 by presburger
  have w3: "card {k. MemoryStorage_visible sample_lib ?clock ?data ''another*'' k \<noteq> None} = 1"
    using t1 k e3 by presburger
  have w4: \<open>MemoryStorage_GetPattern sample_lib ?clock ?data [''another key'', ''a key''] ''a*glob?''
     = (''[]'', None)\<close>
    using t3 e4 by blast
  have w5: \<open>LocalStorage_GetPattern sample_lib no_faults ?ios ?clock ?d ''another*''
     = (''[{"another key":"another value"}]'', None)\<close>
    using t1 f e5 by presburger
  have w6: \<open>LocalStorage_GetPattern sample_lib no_faults ?ios ?clock ?d ''*''
     = (''[{"a key":"a value"},{"another key":"another value"}]'', None)\<close>
    using t2 f e6 by presburger
  have w7: \<open>LocalStorage_GetPattern sample_lib no_faults ?ios ?clock ?d ''a*glob?'' = (''[]'', None)\<close>
    using t3 f e7 by blast
  have w8: \<open>LocalStorage_GetPattern sample_lib no_faults ?ios ?clock [] ''*'' = (''[]'', None)\<close>
    using t2 f by blast
  from w1 w2 w3 w4 w5 w6 w7 w8 show ?thesis by blast
qed

section \<open>Malformed patterns\<close>

lemma MemoryStorage_visible_errors:
  "MemoryStorage_visible (errors_as_no_match L) = MemoryStorage_visible L"
  by (intro ext) (simp add: MemoryStorage_visible_def errors_as_no_match_def split: option.splits)

lemma json_Unmarshal_errors: "json_Unmarshal (errors_as_no_match L) = json_Unmarshal L"
  by (simp add: errors_as_no_match_def)

lemma LocalStorage_decoded_errors:
  "LocalStorage_decoded (errors_as_no_match L) = LocalStorage_decoded L"
  by (intro ext) (simp add: LocalStorage_decoded_def json_Unmarshal_errors split: sum.splits)

lemma LocalStorage_visible_errors:
  "LocalStorage_visible (errors_as_no_match L) = LocalStorage_visible L"
proof (intro ext)
  fix ios clock d pattern name
  have "filepath_Match (errors_as_no_match L) pattern =
      (\<lambda>name. (fst (filepath_Match L pattern name) \<and> \<not> snd (filepath_Match L pattern name),
                False))"
    by (simp add: errors_as_no_match_def)
  then show "LocalStorage_visible (errors_as_no_match L) ios clock d pattern name
      = LocalStorage_visible L ios clock d pattern name"
    by (simp add: LocalStorage_visible_def LocalStorage_decoded_errors split: option.splits)
qed

lemma MemoryStorage_visible_bad_pattern:
  "\<forall>name. snd (filepath_Match L pattern name) \<Longrightarrow> MemoryStorage_visible L clock data pattern k = None"
  by (simp add: MemoryStorage_visible_def split: option.splits)

lemma LocalStorage_visible_bad_pattern:
  "\<forall>name. snd (filepath_Match L pattern name) \<Longrightarrow> LocalStorage_visible L ios clock d pattern n = None"
  by (simp add: LocalStorage_visible_def split: option.splits)

text \<open>
  Claim C7.  An invalid glob pattern makes \<open>GetPattern\<close> treat each key as
  non-matching instead of aborting.  For every pattern the result is the one obtained
  when each error of \<open>filepath.Match\<close> is replaced by "no match"; and when
  \<open>filepath.Match\<close> reports the pattern as malformed for every name, the loop runs over
  all the keys without appending anything, the result is \<^verbatim>\<open>[]\<close> and the error is nil
  (on disk: whenever the directory listing does not fail).
\<close>

theorem get_pattern_invalid:
  "MemoryStorage_GetPattern L clock data keys pattern
     = MemoryStorage_GetPattern (errors_as_no_match L) clock data keys pattern
   \<and> LocalStorage_GetPattern L io ios clock d pattern
     = LocalStorage_GetPattern (errors_as_no_match L) io ios clock d pattern
   \<and> ((\<forall>name. snd (filepath_Match L pattern name)) \<longrightarrow>
        MemoryStorage_GetPattern L clock data keys pattern = (''[]'', None)
        \<and> MemoryStorage_GetPattern_loop L clock data pattern keys ret = ret
        \<and> LocalStorage_GetPattern_loop L ios clock d pattern names ret = ret
        \<and> (Mkdir \<notin> fails io \<and> ReadDir \<notin> fails io \<longrightarrow>
             LocalStorage_GetPattern L io ios clock d pattern = (''[]'', None)))"
proof -
  have a: "MemoryStorage_GetPattern L clock data keys pattern
     = MemoryStorage_GetPattern (errors_as_no_match L) clock data keys pattern"
    by (simp add: MemoryStorage_GetPattern_eq MemoryStorage_visible_errors)
  have b: "LocalStorage_GetPattern L io ios clock d pattern
     = LocalStorage_GetPattern (errors_as_no_match L) io ios clock d pattern"
    by (simp add: LocalStorage_GetPattern_eq LocalStorage_visible_errors)
  have c: "MemoryStorage_GetPattern L clock data keys pattern = (''[]'', None)"
       "MemoryStorage_GetPattern_loop L clock data pattern keys ret = ret"
       "LocalStorage_GetPattern_loop L ios clock d pattern names ret = ret"
    if "\<forall>name. snd (filepath_Match L pattern name)"
    using that
    by (simp_all add: MemoryStorage_GetPattern_eq MemoryStorage_loop_eq LocalStorage_loop_eq
          map_filter_all_None MemoryStorage_visible_bad_pattern LocalStorage_visible_bad_pattern)
  have e: "LocalStorage_GetPattern L io ios clock d pattern = (''[]'', None)"
    if "\<forall>name. snd (filepath_Match L pattern name)" "Mkdir \<notin> fails io" "ReadDir \<notin> fails io"
    using that
    by (simp add: LocalStorage_GetPattern_eq map_filter_all_None LocalStorage_visible_bad_pattern)
  show ?thesis using a b c e by blast
qed


theorem get_pattern_invalid_witness:
  \<open>filepath_Match sample_lib ''[a'' ''a key'' = (False, True)
   \<and> MemoryStorage_GetPattern sample_lib (\<lambda>_. 1793404800000000000)
        [''a key'' \<mapsto> \<lparr>Key = ''a key'', Value = ''a value'', Expiration = 0\<rparr>,
         ''another key'' \<mapsto> \<lparr>Key = ''another key'', Value = ''another value'', Expiration = 0\<rparr>]
        [''another key'', ''a key''] ''[a''
     = (''[]'', None)
   \<and> LocalStorage_GetPattern sample_lib no_faults (\<lambda>_. no_faults) (\<lambda>_. 1793404800000000000)
        [(''61206b6579'', ''{"key":"a key","value":"YSB2YWx1ZQ==","expiration":0}''),
         (''616e6f74686572206b6579'',
          ''{"key":"another key","value":"YW5vdGhlciB2YWx1ZQ==","expiration":0}'')]
        ''[a''
     = (''[]'', None)\<close>
proof -
  have f: "Mkdir \<notin> fails no_faults \<and> ReadDir \<notin> fails no_faults"
    by (simp add: no_faults_def)
  have b: "\<forall>name. snd (filepath_Match sample_lib ''[a'' name)"
    by (simp add: sample_lib_def sample_Match_def)
  have m: "filepath_Match sample_lib ''[a'' ''a key'' = (False, True)"
    by code_simp
  note t = get_pattern_invalid [where L = sample_lib and pattern = "''[a''" and io = no_faults
      and ios = "\<lambda>_. no_faults" and clock = "\<lambda>_. 1793404800000000000"
      and keys = "[''another key'', ''a key'']"
      and data = \<open>[''a key'' \<mapsto> \<lparr>Key = ''a key'', Value = ''a value'', Expiration = 0\<rparr>,
         ''another key'' \<mapsto> \<lparr>Key = ''another key'', Value = ''another value'', Expiration = 0\<rparr>]\<close>
      and d = \<open>[(''61206b6579'', ''{"key":"a key","value":"YSB2YWx1ZQ==","expiration":0}''),
         (''616e6f74686572206b6579'',
          ''{"key":"another key","value":"YW5vdGhlciB2YWx1ZQ==","expiration":0}'')]\<close>]
  from b f m t show ?thesis by blast
qed

section \<open>Expired entries\<close>

lemma LocalStorage_Get_absent:
  "fails io = {} \<Longrightarrow>
   LocalStorage_Get L io now (AList.delete (md5Hash L key) d) key = ([], Some NotExistsError)"
  by (simp add: LocalStorage_Get_def getStorageData_no_faults map_of_delete_same)

lemma LocalStorage_visible_expired:
  assumes "map_of d name = Some b" and "json_Unmarshal L b = Some e"
    and "isExpired (clock name) (Expiration e)"
  shows "LocalStorage_visible L ios clock d pattern name = None"
  using assms
  by (simp add: LocalStorage_visible_def LocalStorage_decoded_def getStorageData_def
        getReader_def split: option.splits)

text \<open>
  Claim C2.  A stored entry with expiration \<open>> 0\<close> and current time \<open>> expiration\<close>
  is treated as absent by every read path, on both backends, although it is still in
  the backing store.  \<open>Get\<close> reports the not-found error, as it does once the entry is
  removed; \<open>GetPattern\<close> returns what it returns on the store without the entry, the
  time being the one read when the scan reaches it.  (On disk the entry is the decoded
  content of the file, and \<open>Get\<close> runs without I/O failure.)
\<close>

theorem expired_treated_as_absent:
  "(data key = Some e \<and> 0 <s Expiration e \<and> Expiration e <s now \<longrightarrow>
      MemoryStorage_Get now data key = ([], Some NotExistsError)
      \<and> IsNotExist (snd (MemoryStorage_Get now data key))
      \<and> MemoryStorage_Get now data key = MemoryStorage_Get now (data(key := None)) key)
   \<and> (data key = Some e \<and> 0 <s Expiration e \<and> Expiration e <s clock key \<longrightarrow>
      MemoryStorage_GetPattern L clock data keys pattern
        = MemoryStorage_GetPattern L clock (data(key := None)) (removeAll key keys) pattern)
   \<and> (map_of d (md5Hash L key) = Some b \<and> json_Unmarshal L b = Some e
        \<and> 0 <s Expiration e \<and> Expiration e <s now \<and> fails io = {} \<longrightarrow>
      LocalStorage_Get L io now d key = ([], Some NotExistsError)
      \<and> fileSystemStorage_Get L io now d key = ([], Some NotExistsError)
      \<and> IsNotExist (snd (LocalStorage_Get L io now d key))
      \<and> LocalStorage_Get L io now d key
          = LocalStorage_Get L io now (AList.delete (md5Hash L key) d) key)
   \<and> (map_of d name = Some b \<and> json_Unmarshal L b = Some e
        \<and> 0 <s Expiration e \<and> Expiration e <s clock name \<longrightarrow>
      LocalStorage_GetPattern L io ios clock d pattern
        = LocalStorage_GetPattern L io ios clock (AList.delete name d) pattern)"
proof -
  have m1: "MemoryStorage_Get now data key = ([], Some NotExistsError)"
    if "data key = Some e" "0 <s Expiration e" "Expiration e <s now"
    using that by (simp add: MemoryStorage_Get_def isExpired_def)
  have m2: "MemoryStorage_Get now (data(key := None)) key = ([], Some NotExistsError)"
    by (simp add: MemoryStorage_Get_def)
  have m3: "MemoryStorage_GetPattern L clock data keys pattern
        = MemoryStorage_GetPattern L clock (data(key := None)) (removeAll key keys) pattern"
    if "data key = Some e" "0 <s Expiration e" "Expiration e <s clock key"
  proof -
    from that have "MemoryStorage_visible L clock data pattern key = None"
      by (simp add: MemoryStorage_visible_def isExpired_def)
    from MemoryStorage_GetPattern_delete [OF this] show ?thesis by simp
  qed
  have l1: "LocalStorage_Get L io now d key = ([], Some NotExistsError)"
    if "map_of d (md5Hash L key) = Some b" "json_Unmarshal L b = Some e"
      "0 <s Expiration e" "Expiration e <s now" "fails io = {}"
    using that by (simp add: LocalStorage_Get_stored isExpired_def)
  have l2: "LocalStorage_Get L io now (AList.delete (md5Hash L key) d) key = ([], Some NotExistsError)"
    if "fails io = {}"
    using that by (rule LocalStorage_Get_absent)
  have l3: "LocalStorage_GetPattern L io ios clock d pattern
        = LocalStorage_GetPattern L io ios clock (AList.delete name d) pattern"
    if "map_of d name = Some b" "json_Unmarshal L b = Some e"
      "0 <s Expiration e" "Expiration e <s clock name"
  proof -
    from that(3,4) have "isExpired (clock name) (Expiration e)"
      by (simp add: isExpired_def)
    with that(1,2) have "LocalStorage_visible L ios clock d pattern name = None"
      by (rule LocalStorage_visible_expired [where clock = clock])
    from LocalStorage_GetPattern_delete [OF this] show ?thesis by simp
  qed
  have n: "IsNotExist (snd (([] :: bytes), Some NotExistsError))"
    by (simp add: IsNotExist_def)
  show ?thesis
    unfolding fileSystemStorage_Get_eq
    using m1 m2 m3 l1 l2 l3 n by metis
qed


theorem expired_treated_as_absent_witness:
  \<open>MemoryStorage_Get 1793404800000000000
        [''a key'' \<mapsto> \<lparr>Key = ''a key'', Value = ''a value'', Expiration = 1793404790000000000\<rparr>,
         ''another key'' \<mapsto> \<lparr>Key = ''another key'', Value = ''another value'', Expiration = 0\<rparr>]
        ''a key''
     = ([], Some NotExistsError)
   \<and> MemoryStorage_GetPattern sample_lib (\<lambda>_. 1793404800000000000)
        [''a key'' \<mapsto> \<lparr>Key = ''a key'', Value = ''a value'', Expiration = 1793404790000000000\<rparr>,
         ''another key'' \<mapsto> \<lparr>Key = ''another key'', Value = ''another value'', Expiration = 0\<rparr>]
        [''another key'', ''a key''] ''*''
     = (''[{"another key":"another value"}]'', None)
   \<and> LocalStorage_Get sample_lib no_faults 1793404800000000000
        [(''61206b6579'', ''{"key":"a key","value":"YSB2YWx1ZQ==","expiration":1793404790000000000}''),
         (''616e6f74686572206b6579'',
          ''{"key":"another key","value":"YW5vdGhlciB2YWx1ZQ==","expiration":0}'')]
        ''a key''
     = ([], Some NotExistsError)
   \<and> fileSystemStorage_Get sample_lib no_faults 1793404800000000000
        [(''61206b6579'', ''{"key":"a key","value":"YSB2YWx1ZQ==","expiration":1793404790000000000}''),
         (''616e6f74686572206b6579'',
          ''{"key":"another key","value":"YW5vdGhlciB2YWx1ZQ==","expiration":0}'')]
        ''a key''
     = ([], Some NotExistsError)
   \<and> LocalStorage_GetPattern sample_lib no_faults (\<lambda>_. no_faults) (\<lambda>_. 1793404800000000000)
        [(''61206b6579'', ''{"key":"a key","value":"YSB2YWx1ZQ==","expiration":1793404790000000000}''),
         (''616e6f74686572206b6579'',
          ''{"key":"another key","value":"YW5vdGhlciB2YWx1ZQ==","expiration":0}'')]
        ''*''
     = (''[{"another key":"another value"}]'', None)\<close>
proof -
  let ?e = \<open>\<lparr>Key = ''a key'', Value = ''a value'', Expiration = 1793404790000000000\<rparr>\<close>
  let ?b = \<open>''{"key":"a key","value":"YSB2YWx1ZQ==","expiration":1793404790000000000}''\<close>
  let ?data = \<open>[''a key'' \<mapsto> \<lparr>Key = ''a key'', Value = ''a value'', Expiration = 1793404790000000000\<rparr>,
         ''another key'' \<mapsto> \<lparr>Key = ''another key'', Value = ''another value'', Expiration = 0\<rparr>]\<close>
  let ?d = \<open>[(''61206b6579'', ''{"key":"a key","value":"YSB2YWx1ZQ==","expiration":1793404790000000000}''),
         (''616e6f74686572206b6579'',
          ''{"key":"another key","value":"YW5vdGhlciB2YWx1ZQ==","expiration":0}'')]\<close>
  let ?clock = "\<lambda>_ :: string. 1793404800000000000 :: int64"
  let ?ios = "\<lambda>_ :: string. no_faults"
  have f: "fails no_faults = {}"
    by (simp add: no_faults_def)
  have x: "0 <s Expiration ?e \<and> Expiration ?e <s 1793404800000000000"
    by (simp add: word_sless_alt)
  have k: "?data ''a key'' = Some ?e"
    by simp
  have h: "map_of ?d (md5Hash sample_lib ''a key'') = Some ?b"
    by code_simp
  have h': "map_of ?d ''61206b6579'' = Some ?b"
    by simp
  have u: "json_Unmarshal sample_lib ?b = Some ?e"
    by code_simp
  have r1: \<open>MemoryStorage_GetPattern sample_lib ?clock (?data(''a key'' := None))
        (removeAll ''a key'' [''another key'', ''a key'']) ''*''
     = (''[{"another key":"another value"}]'', None)\<close>
    by code_simp
  have r2: \<open>LocalStorage_GetPattern sample_lib no_faults ?ios ?clock
        (AList.delete ''61206b6579'' ?d) ''*''
     = (''[{"another key":"another value"}]'', None)\<close>
    by code_simp
  note t = expired_treated_as_absent [where data = ?data and key = "''a key''" and e = ?e
      and now = 1793404800000000000 and clock = ?clock and L = sample_lib and io = no_faults
      and ios = ?ios and d = ?d and b = ?b and name = "''61206b6579''" and pattern = "''*''"
      and keys = "[''another key'', ''a key'']"]
  have w1: "MemoryStorage_Get 1793404800000000000 ?data ''a key'' = ([], Some NotExistsError)"
    using t k x by blast
  have w2: \<open>MemoryStorage_GetPattern sample_lib ?clock ?data [''another key'', ''a key''] ''*''
     = (''[{"another key":"another value"}]'', None)\<close>
    using t k x r1 by presburger
  have w3: "LocalStorage_Get sample_lib no_faults 1793404800000000000 ?d ''a key''
     = ([], Some NotExistsError)"
    using t h u x f by blast
  have w4: "fileSystemStorage_Get sample_lib no_faults 1793404800000000000 ?d ''a key''
     = ([], Some NotExistsError)"
    using t h u x f by blast
  have w5: \<open>LocalStorage_GetPattern sample_lib no_faults ?ios ?clock ?d ''*''
     = (''[{"another key":"another value"}]'', None)\<close>
    using t h' u x r2 by presburger
  from w1 w2 w3 w4 w5 show ?thesis by blast
qed

section \<open>Undecodable content\<close>

lemma LocalStorage_visible_undecodable:
  assumes "map_of d name = Some b" and "json_Unmarshal L b = None"
  shows "LocalStorage_visible L ios clock d pattern name = None"
  using assms
  by (simp add: LocalStorage_visible_def LocalStorage_decoded_def getStorageData_def
        getReader_def split: option.splits)

text \<open>
  Claim C4, as stated: for a key whose stored bytes cannot be decoded, \<open>Get\<close> reports
  the not-found condition rather than a decode error, and \<open>GetPattern\<close> skips the
  entry and continues without error.  The first half fails: \<open>Get\<close> returns the error
  of \<^verbatim>\<open>json.Unmarshal\<close> as it is, and \<open>IsNotExist\<close> is false of it.  Here the file of
  the key holds the eight bytes \<^verbatim>\<open>not json\<close>.
\<close>

theorem undecodable_get_counterexample:
  \<open>json_Unmarshal sample_lib ''not json'' = None
   \<and> LocalStorage_Get sample_lib no_faults 1793404800000000000 [(''61206b6579'', ''not json'')] ''a key''
       = ([], Some JSONError)
   \<and> \<not> IsNotExist (snd (LocalStorage_Get sample_lib no_faults 1793404800000000000
                           [(''61206b6579'', ''not json'')] ''a key''))
   \<and> \<not> IsNotExist (snd (fileSystemStorage_Get sample_lib no_faults 1793404800000000000
                           [(''61206b6579'', ''not json'')] ''a key''))\<close>
  by code_simp

text \<open>
  Claim C4, amended.  For a key whose stored bytes cannot be decoded, \<open>Get\<close> (without
  I/O failure) returns the empty reader with the decode error, for which \<open>IsNotExist\<close>
  is false; only when the stored bytes are empty does it report not-found.
  \<open>GetPattern\<close> skips the undecodable file, returning what it returns on the
  directory without it, and its error is nil whenever the directory listing does not
  fail.
\<close>

theorem undecodable_get:
  "(map_of d (md5Hash L key) = Some b \<and> json_Unmarshal L b = None \<and> fails io = {} \<longrightarrow>
      LocalStorage_Get L io now d key = ([], Some (if b = [] then NotExistsError else JSONError))
      \<and> fileSystemStorage_Get L io now d key
          = ([], Some (if b = [] then NotExistsError else JSONError))
      \<and> (IsNotExist (snd (LocalStorage_Get L io now d key)) \<longleftrightarrow> b = []))
   \<and> (map_of d name = Some b \<and> json_Unmarshal L b = None \<longrightarrow>
      LocalStorage_GetPattern L io ios clock d pattern
        = LocalStorage_GetPattern L io ios clock (AList.delete name d) pattern)
   \<and> (Mkdir \<notin> fails io \<and> ReadDir \<notin> fails io \<longrightarrow>
      snd (LocalStorage_GetPattern L io ios clock d pattern) = None)"
proof -
  have g: "LocalStorage_Get L io now d key = ([], Some (if b = [] then NotExistsError else JSONError))"
    if "map_of d (md5Hash L key) = Some b" "json_Unmarshal L b = None" "fails io = {}"
    using that by (simp add: LocalStorage_Get_stored)
  have n: "IsNotExist (snd (([] :: bytes), Some (if b = [] then NotExistsError else JSONError)))
      \<longleftrightarrow> b = []"
    by (simp add: IsNotExist_def)
  have p: "LocalStorage_GetPattern L io ios clock d pattern
        = LocalStorage_GetPattern L io ios clock (AList.delete name d) pattern"
    if "map_of d name = Some b" "json_Unmarshal L b = None"
  proof -
    from that have "LocalStorage_visible L ios clock d pattern name = None"
      by (rule LocalStorage_visible_undecodable)
    from LocalStorage_GetPattern_delete [OF this] show ?thesis by simp
  qed
  have e: "snd (LocalStorage_GetPattern L io ios clock d pattern) = None"
    if "Mkdir \<notin> fails io" "ReadDir \<notin> fails io"
    using that by (simp add: LocalStorage_GetPattern_eq)
  show ?thesis
    unfolding fileSystemStorage_Get_eq
    using g n p e by metis
qed

theorem undecodable_get_witness:
  \<open>LocalStorage_Get sample_lib no_faults 1793404800000000000
        [(''61206b6579'', ''not json''),
         (''616e6f74686572206b6579'',
          ''{"key":"another key","value":"YW5vdGhlciB2YWx1ZQ==","expiration":0}'')]
        ''a key''
     = ([], Some JSONError)
   \<and> fileSystemStorage_Get sample_lib no_faults 1793404800000000000
        [(''61206b6579'', ''not json''),
         (''616e6f74686572206b6579'',
          ''{"key":"another key","value":"YW5vdGhlciB2YWx1ZQ==","expiration":0}'')]
        ''a key''
     = ([], Some JSONError)
   \<and> LocalStorage_GetPattern sample_lib no_faults (\<lambda>_. no_faults) (\<lambda>_. 1793404800000000000)
        [(''61206b6579'', ''not json''),
         (''616e6f74686572206b6579'',
          ''{"key":"another key","value":"YW5vdGhlciB2YWx1ZQ==","expiration":0}'')]
        ''*''
     = (''[{"another key":"another value"}]'', None)\<close>
proof -
  let ?d = \<open>[(''61206b6579'', ''not json''),
         (''616e6f74686572206b6579'',
          ''{"key":"another key","value":"YW5vdGhlciB2YWx1ZQ==","expiration":0}'')]\<close>
  let ?clock = "\<lambda>_ :: string. 1793404800000000000 :: int64"
  let ?ios = "\<lambda>_ :: string. no_faults"
  have f: "fails no_faults = {}"
    by (simp add: no_faults_def)
  have h: "map_of ?d (md5Hash sample_lib ''a key'') = Some ''not json''"
    by code_simp
  have h': "map_of ?d ''61206b6579'' = Some ''not json''"
    by simp
  have u: "json_Unmarshal sample_lib ''not json'' = None"
    by code_simp
  have ne: "''not json'' \<noteq> ([] :: bytes)"
    by simp
  have r: \<open>LocalStorage_GetPattern sample_lib no_faults ?ios ?clock
        (AList.delete ''61206b6579'' ?d) ''*''
     = (''[{"another key":"another value"}]'', None)\<close>
    by code_simp
  note t = undecodable_get [where L = sample_lib and io = no_faults and ios = ?ios
      and clock = ?clock and d = ?d and b = "''not json''" and key = "''a key''"
      and name = "''61206b6579''" and now = 1793404800000000000 and pattern = "''*''"]
  have w1: "LocalStorage_Get sample_lib no_faults 1793404800000000000 ?d ''a key''
     = ([], Some JSONError)"
    using t h u f ne by presburger
  have w2: "fileSystemStorage_Get sample_lib no_faults 1793404800000000000 ?d ''a key''
     = ([], Some JSONError)"
    using t h u f ne by presburger
  have w3: \<open>LocalStorage_GetPattern sample_lib no_faults ?ios ?clock ?d ''*''
     = (''[{"another key":"another value"}]'', None)\<close>
    using t h' u r by presburger
  from w1 w2 w3 show ?thesis by blast
qed

end
